theory Spec2Isabelle
  imports Complex_Main
begin

section \<open>The JavaScript runtime and the libraries the services call\<close>

text \<open>
  The services call into CryptoJS (SHA-256), the JSON serialiser, the \<open>Date\<close> class, the
  \<open>uuid\<close> package and zod's string validators. None of them is code of the repository,
  so the model takes them as one parameter, a record of functions, and every definition
  below is written for an arbitrary such record. Time is the number of milliseconds since
  the epoch, as \<open>Date.getTime()\<close> reports it; the values read from \<open>uuidv4()\<close>,
  \<open>new Date()\<close> and \<open>Date.now()\<close> during a call are arguments of the modelled call, in
  the order in which the source reads them.
\<close>

datatype json =
    JNull
  | JBool bool
  | JNumber int
  | JString string
  | JArray "json list"
  | JObject "(string \<times> json) list"

record runtime =
  sha256_hex :: "string \<Rightarrow> string"
  toISOString :: "int \<Rightarrow> string"
  JSON_stringify :: "json \<Rightarrow> string"
  JSON_stringify_pretty :: "json \<Rightarrow> string"
  zod_uuid :: "string \<Rightarrow> bool"
  setFullYear_back :: "int \<Rightarrow> int \<Rightarrow> int"

text \<open>
  \<open>sha256_hex\<close> is \<open>CryptoJS.SHA256(s).toString()\<close>; \<open>JSON_stringify_pretty x\<close> is
  \<open>JSON.stringify(x, null, 2)\<close>; \<open>zod_uuid\<close> is the test behind \<open>z.string().uuid()\<close>;
  \<open>setFullYear_back t n\<close> is the time of the date \<open>d\<close> after
  \<open>d.setFullYear(d.getFullYear() - n)\<close>, started at time \<open>t\<close>.
\<close>

text \<open>Errors are values. Each constructor is one \<open>throw new Error(...)\<close> of the source.\<close>

datatype js_error =
    Invalid_audit_log       \<comment> \<open>\<open>'Invalid audit log: ' + validated.error.message\<close>\<close>
  | Invalid_rollback        \<comment> \<open>\<open>'Invalid rollback: ' + validated.error.message\<close>\<close>
  | Rollback_not_found string  \<comment> \<open>\<open>'Rollback "' + rollbackId + '" not found'\<close>\<close>
  | Not_in_pending_status   \<comment> \<open>\<open>'Rollback is not in pending status'\<close>\<close>
  | Only_pending_cancellable  \<comment> \<open>\<open>'Only pending rollbacks can be cancelled'\<close>\<close>

text \<open>\<open>Array.prototype.join\<close> on an array of strings.\<close>

fun join :: "string \<Rightarrow> string list \<Rightarrow> string" where
  "join sep [] = []"
| "join sep [x] = x"
| "join sep (x # y # ys) = x @ sep @ join sep (y # ys)"

text \<open>The decimal digits of a number, as string concatenation renders an integer.\<close>

fun decimal :: "nat \<Rightarrow> string" where
  "decimal n =
     (if n < 10 then [''0123456789'' ! n]
      else decimal (n div 10) @ [''0123456789'' ! (n mod 10)])"

declare decimal.simps [simp del]

definition number_string :: "int \<Rightarrow> string" where
  "number_string i = (if i < 0 then CHR ''-'' # decimal (nat (- i)) else decimal (nat i))"

text \<open>
  \<open>Array.prototype.slice(start, end)\<close> with integer arguments: a negative index counts
  from the end, and both are clamped to the array.
\<close>

definition js_slice :: "'a list \<Rightarrow> int \<Rightarrow> int \<Rightarrow> 'a list" where
  "js_slice xs start fin =
     (let n = int (length xs);
          k = (if start < 0 then max (n + start) 0 else min start n);
          final = (if fin < 0 then max (n + fin) 0 else min fin n)
      in take (nat (final - k)) (drop (nat k) xs))"

section \<open>crypto.ts: the hash chain of the audit log\<close>

text \<open>\<open>sha256\<close>, \<open>createInitialHash\<close> and \<open>createAuditHash\<close> of \<open>src/crypto.ts\<close>.\<close>

definition sha256 :: "runtime \<Rightarrow> string \<Rightarrow> string" where
  "sha256 R data = sha256_hex R data"

definition createInitialHash :: "runtime \<Rightarrow> int \<Rightarrow> string" where
  "createInitialHash R now =
     sha256 R (''AGENT_PIPELINE_VERSIONING_INITIAL_HASH_'' @ number_string now)"

record auditLogData =
  d_id :: string
  d_action :: string
  d_actor :: string
  d_target :: string
  d_timestamp :: string
  d_details :: "(string \<times> json) list"

text \<open>\<open>previousHash || ''\<close>: an absent hash and the empty one both give the empty string.\<close>

definition createAuditHash :: "runtime \<Rightarrow> auditLogData \<Rightarrow> string option \<Rightarrow> string" where
  "createAuditHash R logData previousHash =
     (let payload = join ''|''
        [d_id logData, d_action logData, d_actor logData, d_target logData,
         d_timestamp logData, JSON_stringify R (JObject (d_details logData)),
         (case previousHash of None \<Rightarrow> [] | Some h \<Rightarrow> h)]
      in sha256 R payload)"

section \<open>types.ts: the records and their schemas\<close>

datatype targetType = Artifact | Commit | Branch | Rollback | Environment

fun targetType_string :: "targetType \<Rightarrow> string" where
  "targetType_string Artifact = ''artifact''"
| "targetType_string Commit = ''commit''"
| "targetType_string Branch = ''branch''"
| "targetType_string Rollback = ''rollback''"
| "targetType_string Environment = ''environment''"

record auditLog =
  log_id :: string
  action :: string
  actor :: string
  target :: string
  targetType :: targetType
  timestamp :: int
  details :: "(string \<times> json) list"
  hash :: string
  previousHash :: "string option"
  ipAddress :: "string option"
  userAgent :: "string option"

text \<open>
  \<open>AuditLogSchema.safeParse\<close>. The field types of the record already say that the strings
  are strings, the target type one of the five, the details a record and the timestamp a
  date; what is left to test is that the id is a UUID.
\<close>

definition AuditLogSchema_ok :: "runtime \<Rightarrow> auditLog \<Rightarrow> bool" where
  "AuditLogSchema_ok R l = zod_uuid R (log_id l)"

record repositoryConfig =
  retentionYears :: int

section \<open>The audit log service\<close>

text \<open>
  The class \<open>AuditLogService\<close> (the first file of \<open>src/unnamed/part_000\<close>): its state is
  the array of entries, the repository configuration, of which it reads
  \<open>retentionYears\<close>, and the hash of the last entry.
\<close>

record auditLogEntry =
  e_action :: string
  e_actor :: string
  e_target :: string
  e_targetType :: targetType
  e_details :: "(string \<times> json) list option"
  e_ipAddress :: "string option"
  e_userAgent :: "string option"

record auditLogService =
  logs :: "auditLog list"
  config :: repositoryConfig
  lastHash :: string

text \<open>The constructor; \<open>now\<close> is the \<open>Date.now()\<close> that \<open>createInitialHash\<close> reads.\<close>

definition new_AuditLogService :: "runtime \<Rightarrow> repositoryConfig \<Rightarrow> int \<Rightarrow> auditLogService" where
  "new_AuditLogService R cfg now =
     \<lparr>logs = [], config = cfg, lastHash = createInitialHash R now\<rparr>"

text \<open>
  \<open>log(entry)\<close>; \<open>uuid\<close> is what \<open>uuidv4()\<close> returned and \<open>now\<close> the time of
  \<open>new Date()\<close>. The result is the error or the stored entry, and the service afterwards.
\<close>

definition log_entry ::
  "runtime \<Rightarrow> string \<Rightarrow> int \<Rightarrow> auditLogEntry \<Rightarrow> auditLogService
     \<Rightarrow> (js_error + auditLog) \<times> auditLogService" where
  "log_entry R uuid now entry s =
     (let logData = \<lparr>d_id = uuid, d_action = e_action entry, d_actor = e_actor entry,
                      d_target = e_target entry, d_timestamp = toISOString R now,
                      d_details = (case e_details entry of None \<Rightarrow> [] | Some d \<Rightarrow> d)\<rparr>;
          h = createAuditHash R logData (Some (lastHash s));
          auditLog = \<lparr>log_id = uuid, action = e_action entry, actor = e_actor entry,
                       target = e_target entry, targetType = e_targetType entry,
                       timestamp = now,
                       details = (case e_details entry of None \<Rightarrow> [] | Some d \<Rightarrow> d),
                       hash = h, previousHash = Some (lastHash s),
                       ipAddress = e_ipAddress entry, userAgent = e_userAgent entry\<rparr>
      in if \<not> AuditLogSchema_ok R auditLog then (Inl Invalid_audit_log, s)
         else (Inr auditLog, s\<lparr>logs := logs s @ [auditLog], lastHash := h\<rparr>))"

text \<open>
  \<open>verifyIntegrity()\<close>: the \<open>for\<close> loop over the index \<open>i\<close>, entered at \<open>i\<close>. The
  expected previous hash of the first entry is \<open>undefined\<close>.
\<close>

record integrity =
  valid :: bool
  brokenAt :: "nat option"

definition auditLogData_of :: "runtime \<Rightarrow> auditLog \<Rightarrow> auditLogData" where
  "auditLogData_of R l =
     \<lparr>d_id = log_id l, d_action = action l, d_actor = actor l, d_target = target l,
      d_timestamp = toISOString R (timestamp l), d_details = details l\<rparr>"

function verifyIntegrity_from :: "runtime \<Rightarrow> auditLog list \<Rightarrow> nat \<Rightarrow> integrity" where
  "verifyIntegrity_from R ls i =
     (if i < length ls then
        (let l = ls ! i;
             expectedPreviousHash = (if 0 < i then Some (hash (ls ! (i - 1))) else None)
         in if previousHash l \<noteq> expectedPreviousHash
            then \<lparr>valid = False, brokenAt = Some i\<rparr>
            else if hash l \<noteq> createAuditHash R (auditLogData_of R l) (previousHash l)
            then \<lparr>valid = False, brokenAt = Some i\<rparr>
            else verifyIntegrity_from R ls (i + 1))
      else \<lparr>valid = True, brokenAt = None\<rparr>)"
  by pat_completeness auto
termination
  by (relation "measure (\<lambda>(R, ls, i). length ls - i)") auto

definition verifyIntegrity :: "runtime \<Rightarrow> auditLogService \<Rightarrow> integrity" where
  "verifyIntegrity R s = verifyIntegrity_from R (logs s) 0"




text \<open>
  \<open>getLogs(options?)\<close>. A filter is applied when \<open>options && options.x\<close> is truthy: the
  options are there, the field is there, and it is not the empty string (a string), not
  zero (a number); a \<open>Date\<close> object is always truthy.
\<close>

record getLogsOptions =
  o_actor :: "string option"
  o_action :: "string option"
  o_target :: "string option"
  o_targetType :: "string option"
  o_startDate :: "int option"
  o_endDate :: "int option"
  o_limit :: "int option"
  o_offset :: "int option"

definition truthy_string ::
  "getLogsOptions option \<Rightarrow> (getLogsOptions \<Rightarrow> string option) \<Rightarrow> string option" where
  "truthy_string options field =
     (case options of None \<Rightarrow> None
      | Some opt \<Rightarrow> (case field opt of None \<Rightarrow> None
                     | Some v \<Rightarrow> if v = [] then None else Some v))"

definition truthy_date ::
  "getLogsOptions option \<Rightarrow> (getLogsOptions \<Rightarrow> int option) \<Rightarrow> int option" where
  "truthy_date options field = (case options of None \<Rightarrow> None | Some opt \<Rightarrow> field opt)"

definition truthy_number ::
  "getLogsOptions option \<Rightarrow> (getLogsOptions \<Rightarrow> int option) \<Rightarrow> int option" where
  "truthy_number options field =
     (case options of None \<Rightarrow> None
      | Some opt \<Rightarrow> (case field opt of None \<Rightarrow> None
                     | Some n \<Rightarrow> if n = 0 then None else Some n))"

text \<open>
  The array \<open>filtered\<close> after the six filters and the sort. The comparator
  \<open>b.timestamp - a.timestamp\<close> orders by descending time and the sort is stable, as
  \<open>sort_key\<close> is.
\<close>

definition getLogs_sorted :: "getLogsOptions option \<Rightarrow> auditLogService \<Rightarrow> auditLog list" where
  "getLogs_sorted options s =
     (let filtered = logs s;
          filtered = (case truthy_string options o_actor of None \<Rightarrow> filtered
                      | Some a \<Rightarrow> filter (\<lambda>l. actor l = a) filtered);
          filtered = (case truthy_string options o_action of None \<Rightarrow> filtered
                      | Some a \<Rightarrow> filter (\<lambda>l. action l = a) filtered);
          filtered = (case truthy_string options o_target of None \<Rightarrow> filtered
                      | Some a \<Rightarrow> filter (\<lambda>l. target l = a) filtered);
          filtered = (case truthy_string options o_targetType of None \<Rightarrow> filtered
                      | Some a \<Rightarrow> filter (\<lambda>l. targetType_string (targetType l) = a) filtered);
          filtered = (case truthy_date options o_startDate of None \<Rightarrow> filtered
                      | Some d \<Rightarrow> filter (\<lambda>l. d \<le> timestamp l) filtered);
          filtered = (case truthy_date options o_endDate of None \<Rightarrow> filtered
                      | Some d \<Rightarrow> filter (\<lambda>l. timestamp l \<le> d) filtered)
      in sort_key (\<lambda>l. - timestamp l) filtered)"

definition getLogs :: "getLogsOptions option \<Rightarrow> auditLogService \<Rightarrow> auditLog list" where
  "getLogs options s =
     (let filtered = getLogs_sorted options s;
          offset = (case truthy_number options o_offset of None \<Rightarrow> 0 | Some n \<Rightarrow> n);
          limit = (case truthy_number options o_limit of
                     None \<Rightarrow> int (length filtered) | Some n \<Rightarrow> n)
      in js_slice filtered offset (offset + limit))"

text \<open>
  What it is for an entry to match the options, in the words of the specification: the
  filters are conjunctive. A filter that is absent, or the empty string, admits every
  entry. This is the reading that the result of \<open>getLogs\<close> is compared with, not code
  of the service.
\<close>

definition filter_admits :: "string option \<Rightarrow> string \<Rightarrow> bool" where
  "filter_admits f v = (case f of None \<Rightarrow> True | Some a \<Rightarrow> a = [] \<or> v = a)"

definition entry_matches :: "getLogsOptions \<Rightarrow> auditLog \<Rightarrow> bool" where
  "entry_matches opt l =
     (filter_admits (o_actor opt) (actor l)
      \<and> filter_admits (o_action opt) (action l)
      \<and> filter_admits (o_target opt) (target l)
      \<and> filter_admits (o_targetType opt) (targetType_string (targetType l))
      \<and> (case o_startDate opt of None \<Rightarrow> True | Some d \<Rightarrow> d \<le> timestamp l)
      \<and> (case o_endDate opt of None \<Rightarrow> True | Some d \<Rightarrow> timestamp l \<le> d))"

text \<open>\<open>exportForCompliance(format)\<close>.\<close>

datatype exportFormat = Json | Csv

definition optional_member :: "string \<Rightarrow> string option \<Rightarrow> (string \<times> json) list" where
  "optional_member k v = (case v of None \<Rightarrow> [] | Some x \<Rightarrow> [(k, JString x)])"

definition auditLog_json :: "runtime \<Rightarrow> auditLog \<Rightarrow> json" where
  "auditLog_json R l =
     JObject ([(''id'', JString (log_id l)), (''action'', JString (action l)),
               (''actor'', JString (actor l)), (''target'', JString (target l)),
               (''targetType'', JString (targetType_string (targetType l))),
               (''timestamp'', JString (toISOString R (timestamp l))),
               (''details'', JObject (details l)), (''hash'', JString (hash l))]
              @ optional_member ''previousHash'' (previousHash l)
              @ optional_member ''ipAddress'' (ipAddress l)
              @ optional_member ''userAgent'' (userAgent l))"

definition csv_headers :: "string list" where
  "csv_headers =
     [''id'', ''action'', ''actor'', ''target'', ''targetType'',
      ''timestamp'', ''hash'', ''previousHash'']"

definition csv_row :: "runtime \<Rightarrow> auditLog \<Rightarrow> string list" where
  "csv_row R l =
     [log_id l, action l, actor l, target l, targetType_string (targetType l),
      toISOString R (timestamp l), hash l,
      (case previousHash l of None \<Rightarrow> [] | Some h \<Rightarrow> h)]"

definition exportForCompliance :: "runtime \<Rightarrow> exportFormat \<Rightarrow> auditLogService \<Rightarrow> string" where
  "exportForCompliance R format s =
     (case format of
        Json \<Rightarrow> JSON_stringify_pretty R (JArray (map (auditLog_json R) (logs s)))
      | Csv \<Rightarrow>
          (let headers = csv_headers;
               rows = map (csv_row R) (logs s)
           in join [CHR 0x0A] (join '','' headers # map (\<lambda>r. join '','' r) rows)))"

text \<open>
  \<open>archiveOldLogs()\<close>; \<open>now\<close> is the time of \<open>new Date()\<close>. The entries to archive are
  counted and dropped; the service keeps the others.
\<close>

record archiveResult =
  archived :: nat
  retained :: nat

definition archiveOldLogs ::
  "runtime \<Rightarrow> int \<Rightarrow> auditLogService \<Rightarrow> archiveResult \<times> auditLogService" where
  "archiveOldLogs R now s =
     (let cutoffDate = setFullYear_back R now (retentionYears (config s));
          toArchive = filter (\<lambda>l. timestamp l < cutoffDate) (logs s);
          toRetain = filter (\<lambda>l. cutoffDate \<le> timestamp l) (logs s)
      in (\<lparr>archived = length toArchive, retained = length toRetain\<rparr>,
          s\<lparr>logs := toRetain\<rparr>))"

text \<open>
  A run of \<open>log\<close> calls, each with the id and the time it read; \<open>None\<close> when one of them
  throws.
\<close>

fun appends ::
  "runtime \<Rightarrow> (string \<times> int \<times> auditLogEntry) list \<Rightarrow> auditLogService
     \<Rightarrow> auditLogService option" where
  "appends R [] s = Some s"
| "appends R ((uuid, now, entry) # calls) s =
     (case log_entry R uuid now entry s of
        (Inl e, s') \<Rightarrow> None
      | (Inr l, s') \<Rightarrow> appends R calls s')"

section \<open>The rollback service\<close>

text \<open>
  The class \<open>RollbackService\<close> (the second file of \<open>src/crypto.ts\<close>) and the types of
  \<open>src/types.ts\<close> that it uses.
\<close>

datatype rollbackTrigger = Manual | Automated

datatype rollbackStatus = Pending | In_progress | Completed | Failed

datatype triggerReason =
    Error_rate_spike
  | Safety_violation
  | Performance_degradation
  | Manual_request
  | Scheduled_rollback

fun rollbackTrigger_string :: "rollbackTrigger \<Rightarrow> string" where
  "rollbackTrigger_string Manual = ''manual''"
| "rollbackTrigger_string Automated = ''automated''"

fun triggerReason_string :: "triggerReason \<Rightarrow> string" where
  "triggerReason_string Error_rate_spike = ''error_rate_spike''"
| "triggerReason_string Safety_violation = ''safety_violation''"
| "triggerReason_string Performance_degradation = ''performance_degradation''"
| "triggerReason_string Manual_request = ''manual_request''"
| "triggerReason_string Scheduled_rollback = ''scheduled_rollback''"

text \<open>A JavaScript \<open>number\<close> that the source only compares and counts is a real here.\<close>

record rollbackMetrics =
  errorRate :: real
  safetyViolations :: real
  averageResponseTimeMs :: real
  totalRequests :: real
  failedRequests :: real

record rollbackConfig =
  errorRateThreshold :: real
  safetyViolationThreshold :: real
  performanceThresholdMs :: real
  detectionWindowSeconds :: real
  cooldownSeconds :: real
  maxRollbacksPerHour :: real

record autoRollbackConfig =
  a_errorRateThreshold :: real
  a_safetyViolationThreshold :: real
  a_performanceThresholdMs :: real
  a_detectionWindowSeconds :: real
  a_cooldownSeconds :: real

record rollback =
  rb_id :: string
  targetVersion :: string
  targetCommitId :: "string option"
  trigger :: rollbackTrigger
  reason :: triggerReason
  initiatedBy :: string
  rb_timestamp :: int
  status :: rollbackStatus
  completedAt :: "int option"
  error :: "string option"
  affectedArtifacts :: "string list"
  autoRollbackConfig :: "autoRollbackConfig option"

text \<open>
  \<open>RollbackSchema.safeParse\<close>: \<open>targetVersion\<close> is \<open>z.string()\<close>, which every string
  passes; the id, the optional commit id and the affected artifacts are tested as UUIDs.
\<close>

definition RollbackSchema_ok :: "runtime \<Rightarrow> rollback \<Rightarrow> bool" where
  "RollbackSchema_ok R r =
     (zod_uuid R (rb_id r)
      \<and> (case targetCommitId r of None \<Rightarrow> True | Some c \<Rightarrow> zod_uuid R c)
      \<and> list_all (zod_uuid R) (affectedArtifacts r))"

text \<open>
  The service: the map of rollbacks by id, the configuration, the audit log service it
  writes to, and the two fields of the rate gate.
\<close>

record rollbackService =
  rollbacks :: "string \<Rightarrow> rollback option"
  rb_config :: rollbackConfig
  auditLog :: auditLogService
  lastRollbackTime :: int
  rollbackCountLastHour :: int

definition new_RollbackService :: "rollbackConfig \<Rightarrow> auditLogService \<Rightarrow> rollbackService" where
  "new_RollbackService cfg audit =
     \<lparr>rollbacks = Map.empty, rb_config = cfg, auditLog = audit,
      lastRollbackTime = 0, rollbackCountLastHour = 0\<rparr>"

definition DEFAULT_ROLLBACK_CONFIG :: rollbackConfig where
  "DEFAULT_ROLLBACK_CONFIG =
     \<lparr>errorRateThreshold = 0.05, safetyViolationThreshold = 0,
      performanceThresholdMs = 5000, detectionWindowSeconds = 60,
      cooldownSeconds = 300, maxRollbacksPerHour = 10\<rparr>"

record initiateParams =
  p_targetVersion :: string
  p_trigger :: rollbackTrigger
  p_triggerReason :: triggerReason
  p_initiatedBy :: string
  p_description :: "string option"
  p_targetCommitId :: "string option"

text \<open>
  What \<open>initiateRollback\<close> reads from its environment, in order: \<open>uuidv4()\<close> and
  \<open>new Date()\<close> for the record, \<open>Date.now()\<close> for \<open>lastRollbackTime\<close>, then the id and
  the date of the audit entry.
\<close>

record initiateReads =
  i_uuid :: string
  i_date :: int
  i_now :: int
  i_log_uuid :: string
  i_log_date :: int

text \<open>
  \<open>initiateRollback(params)\<close>. The record is stored and the two gate fields are updated
  before the audit entry is written, so an error of \<open>log\<close> leaves them updated. The
  notification callback is the caller's code; the model takes it to return.
\<close>

definition initiateRollback ::
  "runtime \<Rightarrow> initiateReads \<Rightarrow> initiateParams \<Rightarrow> rollbackService
     \<Rightarrow> (js_error + rollback) \<times> rollbackService" where
  "initiateRollback R rd params s =
     (let rollback =
            \<lparr>rb_id = i_uuid rd, targetVersion = p_targetVersion params,
             targetCommitId = p_targetCommitId params, trigger = p_trigger params,
             reason = p_triggerReason params, initiatedBy = p_initiatedBy params,
             rb_timestamp = i_date rd, status = Pending, completedAt = None,
             error = None, affectedArtifacts = [],
             autoRollbackConfig = Some
               \<lparr>a_errorRateThreshold = errorRateThreshold (rb_config s),
                a_safetyViolationThreshold = safetyViolationThreshold (rb_config s),
                a_performanceThresholdMs = performanceThresholdMs (rb_config s),
                a_detectionWindowSeconds = detectionWindowSeconds (rb_config s),
                a_cooldownSeconds = cooldownSeconds (rb_config s)\<rparr>\<rparr>
      in if \<not> RollbackSchema_ok R rollback then (Inl Invalid_rollback, s)
         else
           (let s1 = s\<lparr>rollbacks := (rollbacks s)(rb_id rollback \<mapsto> rollback),
                       lastRollbackTime := i_now rd,
                       rollbackCountLastHour := rollbackCountLastHour s + 1\<rparr>;
                logged = log_entry R (i_log_uuid rd) (i_log_date rd)
                   \<lparr>e_action = ''ROLLBACK_INITIATED'', e_actor = p_initiatedBy params,
                    e_target = rb_id rollback, e_targetType = Rollback,
                    e_details = Some
                      [(''targetVersion'', JString (p_targetVersion params)),
                       (''trigger'', JString (rollbackTrigger_string (p_trigger params))),
                       (''reason'', JString (triggerReason_string (p_triggerReason params)))],
                    e_ipAddress = None, e_userAgent = None\<rparr>
                   (auditLog s1);
                s2 = s1\<lparr>auditLog := snd logged\<rparr>
            in case fst logged of
                 Inl e \<Rightarrow> (Inl e, s2)
               | Inr l \<Rightarrow> (Inr rollback, s2)))"

text \<open>
  The trigger conditions of \<open>checkAndTriggerRollback\<close>, in the order of its
  \<open>if\<close> / \<open>else if\<close> chain: the value of its variable \<open>triggerReason\<close>, \<open>None\<close> for
  \<open>null\<close>.
\<close>

definition triggerReason_of :: "rollbackConfig \<Rightarrow> rollbackMetrics \<Rightarrow> triggerReason option" where
  "triggerReason_of cfg metrics =
     (if safetyViolationThreshold cfg < safetyViolations metrics then Some Safety_violation
      else if errorRateThreshold cfg < errorRate metrics then Some Error_rate_spike
      else if performanceThresholdMs cfg < averageResponseTimeMs metrics
      then Some Performance_degradation
      else None)"

text \<open>
  \<open>checkAndTriggerRollback(metrics)\<close>; \<open>now\<close> is its own \<open>Date.now()\<close>. The result is
  \<open>None\<close> for \<open>null\<close>.
\<close>

definition checkAndTriggerRollback ::
  "runtime \<Rightarrow> int \<Rightarrow> initiateReads \<Rightarrow> rollbackMetrics \<Rightarrow> rollbackService
     \<Rightarrow> (js_error + rollback option) \<times> rollbackService" where
  "checkAndTriggerRollback R now rd metrics s =
     (let timeSinceLastRollback = real_of_int (now - lastRollbackTime s) / 1000
      in if timeSinceLastRollback < cooldownSeconds (rb_config s) then (Inr None, s)
         else if maxRollbacksPerHour (rb_config s) \<le> real_of_int (rollbackCountLastHour s)
         then (Inr None, s)
         else
           (let triggerReason = triggerReason_of (rb_config s) metrics;
                targetVersion = []
            in case triggerReason of
                 None \<Rightarrow> (Inr None, s)
               | Some r \<Rightarrow>
                   (let initiated = initiateRollback R rd
                      \<lparr>p_targetVersion = targetVersion, p_trigger = Automated,
                       p_triggerReason = r, p_initiatedBy = ''system'',
                       p_description = Some (''Automated trigger: '' @ triggerReason_string r),
                       p_targetCommitId = None\<rparr> s
                    in case fst initiated of
                         Inl e \<Rightarrow> (Inl e, snd initiated)
                       | Inr rollback \<Rightarrow> (Inr (Some rollback), snd initiated))))"

text \<open>
  The four transitions. Each looks the record up, changes it in place (here: in the
  map) and writes an audit entry with the id and date it reads.
\<close>

definition executeRollback ::
  "runtime \<Rightarrow> string \<Rightarrow> int \<Rightarrow> string \<Rightarrow> rollbackService
     \<Rightarrow> (js_error + rollback) \<times> rollbackService" where
  "executeRollback R log_uuid log_date rollbackId s =
     (case rollbacks s rollbackId of
        None \<Rightarrow> (Inl (Rollback_not_found rollbackId), s)
      | Some rollback \<Rightarrow>
          if status rollback \<noteq> Pending then (Inl Not_in_pending_status, s)
          else
            (let rollback' = rollback\<lparr>status := In_progress\<rparr>;
                 s1 = s\<lparr>rollbacks := (rollbacks s)(rollbackId \<mapsto> rollback')\<rparr>;
                 logged = log_entry R log_uuid log_date
                    \<lparr>e_action = ''ROLLBACK_IN_PROGRESS'', e_actor = ''system'',
                     e_target = rollbackId, e_targetType = Rollback,
                     e_details = Some [(''status'', JString ''in_progress'')],
                     e_ipAddress = None, e_userAgent = None\<rparr>
                    (auditLog s1);
                 s2 = s1\<lparr>auditLog := snd logged\<rparr>
             in case fst logged of
                  Inl e \<Rightarrow> (Inl e, s2)
                | Inr l \<Rightarrow> (Inr rollback', s2)))"

definition completeRollback ::
  "runtime \<Rightarrow> int \<Rightarrow> string \<Rightarrow> int \<Rightarrow> string \<Rightarrow> string list \<Rightarrow> rollbackService
     \<Rightarrow> (js_error + rollback) \<times> rollbackService" where
  "completeRollback R date log_uuid log_date rollbackId artifacts s =
     (case rollbacks s rollbackId of
        None \<Rightarrow> (Inl (Rollback_not_found rollbackId), s)
      | Some rollback \<Rightarrow>
          (let rollback' = rollback\<lparr>status := Completed, completedAt := Some date,
                                     affectedArtifacts := artifacts\<rparr>;
               s1 = s\<lparr>rollbacks := (rollbacks s)(rollbackId \<mapsto> rollback')\<rparr>;
               logged = log_entry R log_uuid log_date
                  \<lparr>e_action = ''ROLLBACK_COMPLETED'', e_actor = initiatedBy rollback',
                   e_target = rollbackId, e_targetType = Rollback,
                   e_details = Some
                     [(''targetVersion'', JString (targetVersion rollback')),
                      (''affectedArtifacts'', JArray (map JString artifacts))],
                   e_ipAddress = None, e_userAgent = None\<rparr>
                  (auditLog s1);
               s2 = s1\<lparr>auditLog := snd logged\<rparr>
           in case fst logged of
                Inl e \<Rightarrow> (Inl e, s2)
              | Inr l \<Rightarrow> (Inr rollback', s2)))"

definition failRollback ::
  "runtime \<Rightarrow> int \<Rightarrow> string \<Rightarrow> int \<Rightarrow> string \<Rightarrow> string \<Rightarrow> rollbackService
     \<Rightarrow> (js_error + rollback) \<times> rollbackService" where
  "failRollback R date log_uuid log_date rollbackId err s =
     (case rollbacks s rollbackId of
        None \<Rightarrow> (Inl (Rollback_not_found rollbackId), s)
      | Some rollback \<Rightarrow>
          (let rollback' = rollback\<lparr>status := Failed, completedAt := Some date,
                                     error := Some err\<rparr>;
               s1 = s\<lparr>rollbacks := (rollbacks s)(rollbackId \<mapsto> rollback')\<rparr>;
               logged = log_entry R log_uuid log_date
                  \<lparr>e_action = ''ROLLBACK_FAILED'', e_actor = initiatedBy rollback',
                   e_target = rollbackId, e_targetType = Rollback,
                   e_details = Some [(''error'', JString err)],
                   e_ipAddress = None, e_userAgent = None\<rparr>
                  (auditLog s1);
               s2 = s1\<lparr>auditLog := snd logged\<rparr>
           in case fst logged of
                Inl e \<Rightarrow> (Inl e, s2)
              | Inr l \<Rightarrow> (Inr rollback', s2)))"

definition cancelRollback ::
  "runtime \<Rightarrow> int \<Rightarrow> string \<Rightarrow> int \<Rightarrow> string \<Rightarrow> string \<Rightarrow> rollbackService
     \<Rightarrow> (js_error + unit) \<times> rollbackService" where
  "cancelRollback R date log_uuid log_date rollbackId cancelledBy s =
     (case rollbacks s rollbackId of
        None \<Rightarrow> (Inl (Rollback_not_found rollbackId), s)
      | Some rollback \<Rightarrow>
          if status rollback \<noteq> Pending then (Inl Only_pending_cancellable, s)
          else
            (let rollback' = rollback\<lparr>status := Failed,
                                       error := Some (''Cancelled by '' @ cancelledBy),
                                       completedAt := Some date\<rparr>;
                 s1 = s\<lparr>rollbacks := (rollbacks s)(rollbackId \<mapsto> rollback')\<rparr>;
                 logged = log_entry R log_uuid log_date
                    \<lparr>e_action = ''ROLLBACK_CANCELLED'', e_actor = cancelledBy,
                     e_target = rollbackId, e_targetType = Rollback,
                     e_details = Some [],
                     e_ipAddress = None, e_userAgent = None\<rparr>
                    (auditLog s1);
                 s2 = s1\<lparr>auditLog := snd logged\<rparr>
             in case fst logged of
                  Inl e \<Rightarrow> (Inl e, s2)
                | Inr l \<Rightarrow> (Inr (), s2)))"

section \<open>A runtime to run the model on\<close>

text \<open>
  To evaluate the model at concrete inputs the parameter needs a value. \<open>demo_runtime\<close>
  tests UUIDs by their format (five groups of 8, 4, 4, 4 and 12 hexadecimal digits),
  renders dates as \<open>Date.prototype.toISOString\<close> does for the years 0 to 9999, moves a
  date back by whole years as \<open>setFullYear\<close> does in the time zone UTC, and serialises
  JSON values without white space (strings as they are, which is right for strings that
  need no escape). Its digest is a stand-in: an injective function of the text in place
  of SHA-256. Each closed theorem below that runs on it comes with a lemma that states
  the same for every runtime.
\<close>

text \<open>Days since the epoch to year, month and day of the civil calendar, and back.\<close>

definition civil_from_days :: "int \<Rightarrow> int \<times> int \<times> int" where
  "civil_from_days z0 =
     (let z = z0 + 719468;
          era = z div 146097;
          doe = z - era * 146097;
          yoe = (doe - doe div 1460 + doe div 36524 - doe div 146096) div 365;
          y = yoe + era * 400;
          doy = doe - (365 * yoe + yoe div 4 - yoe div 100);
          mp = (5 * doy + 2) div 153;
          d = doy - (153 * mp + 2) div 5 + 1;
          m = (if mp < 10 then mp + 3 else mp - 9)
      in (if m \<le> 2 then y + 1 else y, m, d))"

definition days_from_civil :: "int \<Rightarrow> int \<Rightarrow> int \<Rightarrow> int" where
  "days_from_civil y0 m d =
     (let y = (if m \<le> 2 then y0 - 1 else y0);
          era = y div 400;
          yoe = y - era * 400;
          doy = (153 * (if 2 < m then m - 3 else m + 9) + 2) div 5 + d - 1;
          doe = yoe * 365 + yoe div 4 - yoe div 100 + doy
      in era * 146097 + doe - 719468)"

definition pad :: "nat \<Rightarrow> int \<Rightarrow> string" where
  "pad w n = (let d = decimal (nat n) in drop (length d) (take w ''0000'') @ d)"

definition iso_string :: "int \<Rightarrow> string" where
  "iso_string t =
     (let ms = t mod 86400000;
          ymd = civil_from_days (t div 86400000)
      in pad 4 (fst ymd) @ ''-'' @ pad 2 (fst (snd ymd)) @ ''-'' @ pad 2 (snd (snd ymd))
         @ ''T'' @ pad 2 (ms div 3600000) @ '':'' @ pad 2 (ms div 60000 mod 60)
         @ '':'' @ pad 2 (ms div 1000 mod 60) @ ''.'' @ pad 3 (ms mod 1000) @ ''Z'')"

definition years_back :: "int \<Rightarrow> int \<Rightarrow> int" where
  "years_back t n =
     (let ms = t mod 86400000;
          ymd = civil_from_days (t div 86400000)
      in days_from_civil (fst ymd - n) (fst (snd ymd)) (snd (snd ymd)) * 86400000 + ms)"

definition hex_digit :: "char \<Rightarrow> bool" where
  "hex_digit c = (c \<in> set ''0123456789abcdefABCDEF'')"

definition uuid_format :: "string \<Rightarrow> bool" where
  "uuid_format s =
     (length s = 36 \<and> s ! 8 = CHR ''-'' \<and> s ! 13 = CHR ''-'' \<and> s ! 18 = CHR ''-''
      \<and> s ! 23 = CHR ''-''
      \<and> list_all hex_digit
           (take 8 s @ take 4 (drop 9 s) @ take 4 (drop 14 s) @ take 4 (drop 19 s)
            @ drop 24 s))"

fun demo_stringify :: "json \<Rightarrow> string"
  and demo_stringify_list :: "json list \<Rightarrow> string list"
  and demo_stringify_members :: "(string \<times> json) list \<Rightarrow> string list" where
  "demo_stringify JNull = ''null''"
| "demo_stringify (JBool b) = (if b then ''true'' else ''false'')"
| "demo_stringify (JNumber n) = number_string n"
| "demo_stringify (JString s) = CHR 0x22 # s @ [CHR 0x22]"
| "demo_stringify (JArray xs) = ''['' @ join '','' (demo_stringify_list xs) @ '']''"
| "demo_stringify (JObject kvs) = ''{'' @ join '','' (demo_stringify_members kvs) @ ''}''"
| "demo_stringify_list [] = []"
| "demo_stringify_list (x # xs) = demo_stringify x # demo_stringify_list xs"
| "demo_stringify_members [] = []"
| "demo_stringify_members ((k, v) # kvs) =
     (CHR 0x22 # k @ [CHR 0x22] @ '':'' @ demo_stringify v) # demo_stringify_members kvs"

definition demo_runtime :: runtime where
  "demo_runtime =
     \<lparr>sha256_hex = (\<lambda>s. ''sha256('' @ s @ '')''),
      toISOString = iso_string,
      JSON_stringify = demo_stringify,
      JSON_stringify_pretty = demo_stringify,
      zod_uuid = uuid_format,
      setFullYear_back = years_back\<rparr>"

section \<open>Concrete inputs\<close>

definition demo_config :: repositoryConfig where
  "demo_config = \<lparr>retentionYears = 10\<rparr>"

definition demo_entry :: "string \<Rightarrow> auditLogEntry" where
  "demo_entry a =
     \<lparr>e_action = a, e_actor = ''alice'', e_target = ''doc-1'', e_targetType = Artifact,
      e_details = None, e_ipAddress = None, e_userAgent = None\<rparr>"

definition uuid1 :: string where
  "uuid1 = ''11111111-1111-4111-8111-111111111111''"

definition uuid2 :: string where
  "uuid2 = ''22222222-2222-4222-8222-222222222222''"

definition uuid3 :: string where
  "uuid3 = ''33333333-3333-4333-8333-333333333333''"

definition uuid4 :: string where
  "uuid4 = ''44444444-4444-4444-8444-444444444444''"

text \<open>A ledger constructed at time \<open>1690000000000\<close>, before any \<open>log\<close> call.\<close>

definition fresh_ledger :: auditLogService where
  "fresh_ledger = new_AuditLogService demo_runtime demo_config 1690000000000"

text \<open>The ledger after one \<open>log\<close> call, and after two.\<close>

definition ledger_of_one :: "auditLogService option" where
  "ledger_of_one =
     appends demo_runtime [(uuid1, 1700000000000, demo_entry ''CREATE'')] fresh_ledger"

definition ledger_of_two :: "auditLogService option" where
  "ledger_of_two =
     appends demo_runtime
       [(uuid1, 1000000000000, demo_entry ''CREATE''),
        (uuid2, 1699000000000, demo_entry ''UPDATE'')] fresh_ledger"

text \<open>
  A rollback service with the default thresholds and at most two rollbacks per hour, on
  the new ledger; the metrics of the specification's priority example; and the reads of
  one \<open>initiateRollback\<close> call that all happen at time \<open>t\<close>.
\<close>

definition demo_rollbackConfig :: rollbackConfig where
  "demo_rollbackConfig = DEFAULT_ROLLBACK_CONFIG\<lparr>maxRollbacksPerHour := 2\<rparr>"

definition demo_service :: rollbackService where
  "demo_service = new_RollbackService demo_rollbackConfig fresh_ledger"

definition breach_metrics :: rollbackMetrics where
  "breach_metrics =
     \<lparr>errorRate = 0.9, safetyViolations = 1, averageResponseTimeMs = 100,
      totalRequests = 1000, failedRequests = 900\<rparr>"

definition reads_at :: "string \<Rightarrow> string \<Rightarrow> int \<Rightarrow> initiateReads" where
  "reads_at u lu t = \<lparr>i_uuid = u, i_date = t, i_now = t, i_log_uuid = lu, i_log_date = t\<rparr>"

text \<open>
  The service after a first automated rollback at time \<open>1700000000000\<close>, after a second
  one 400 seconds later, and the first record driven to \<open>in_progress\<close> and \<open>completed\<close>.
\<close>

definition after_first :: rollbackService where
  "after_first =
     snd (checkAndTriggerRollback demo_runtime 1700000000000
            (reads_at uuid1 uuid2 1700000000000) breach_metrics demo_service)"

definition after_second :: rollbackService where
  "after_second =
     snd (checkAndTriggerRollback demo_runtime 1700000400000
            (reads_at uuid3 uuid4 1700000400000) breach_metrics after_first)"

definition first_in_progress :: rollbackService where
  "first_in_progress = snd (executeRollback demo_runtime uuid3 1700000001000 uuid1 after_first)"

definition first_completed :: rollbackService where
  "first_completed =
     snd (completeRollback demo_runtime 1700000002000 uuid4 1700000002000 uuid1 []
            first_in_progress)"

text \<open>The ledger after the two \<open>log\<close> calls of \<open>ledger_of_two\<close>, as a service.\<close>

definition ledger_two :: auditLogService where
  "ledger_two =
     snd (log_entry demo_runtime uuid2 1699000000000 (demo_entry ''UPDATE'')
            (snd (log_entry demo_runtime uuid1 1000000000000 (demo_entry ''CREATE'')
                    fresh_ledger)))"





section \<open>CSV: the lines of a text and the escaping of RFC 4180\<close>

text \<open>The pieces of a string between the occurrences of a character, as \<open>split\<close> gives them.\<close>

fun split_on :: "char \<Rightarrow> string \<Rightarrow> string list" where
  "split_on c [] = [[]]"
| "split_on c (x # xs) =
     (if x = c then [] # split_on c xs
      else (case split_on c xs of [] \<Rightarrow> [[x]] | y # ys \<Rightarrow> (x # y) # ys))"

text \<open>
  What the specification asks of the CSV export, in its words: a field that contains the
  delimiter, a double quote or a line break is enclosed in double quotes, with each double
  quote in it doubled. \<open>exportCsv_rfc4180\<close> is the export with every field of a row
  escaped that way. It is the specification's export, not the code's.
\<close>

definition rfc4180_field :: "string \<Rightarrow> string" where
  "rfc4180_field f =
     (if CHR '','' \<in> set f \<or> CHR 0x22 \<in> set f \<or> CHR 0x0A \<in> set f \<or> CHR 0x0D \<in> set f
      then CHR 0x22 # concat (map (\<lambda>c. if c = CHR 0x22 then [c, c] else [c]) f) @ [CHR 0x22]
      else f)"

definition exportCsv_rfc4180 :: "runtime \<Rightarrow> auditLogService \<Rightarrow> string" where
  "exportCsv_rfc4180 R s =
     join [CHR 0x0A]
       (join '','' csv_headers
        # map (\<lambda>l. join '','' (map rfc4180_field (csv_row R l))) (logs s))"

text \<open>A stored ledger of one entry whose action contains a comma.\<close>

definition comma_ledger :: auditLogService where
  "comma_ledger =
     \<lparr>logs = [\<lparr>log_id = uuid1, action = ''MERGE,REBASE'', actor = ''alice'',
               target = ''doc-1'', targetType = Branch, timestamp = 1700000000000,
               details = [], hash = ''9f2c'', previousHash = Some ''03ab'',
               ipAddress = None, userAgent = None\<rparr>],
      config = demo_config, lastHash = ''9f2c''\<rparr>"

text \<open>
  The ledger of the specification's end-to-end scenario: the actions \<open>CREATE\<close>, \<open>UPDATE\<close>
  and \<open>DELETE\<close> by \<open>alice\<close>, appended to a new ledger.
\<close>

definition ledger_three :: auditLogService where
  "ledger_three =
     snd (log_entry demo_runtime uuid3 1700000002000 (demo_entry ''DELETE'')
       (snd (log_entry demo_runtime uuid2 1700000001000 (demo_entry ''UPDATE'')
          (snd (log_entry demo_runtime uuid1 1700000000000 (demo_entry ''CREATE'')
                  fresh_ledger)))))"

text \<open>A query for the entries of \<open>alice\<close> with a limit of 0 and no offset.\<close>

definition alice_no_limit :: getLogsOptions where
  "alice_no_limit =
     \<lparr>o_actor = Some ''alice'', o_action = None, o_target = None, o_targetType = None,
      o_startDate = None, o_endDate = None, o_limit = Some 0, o_offset = None\<rparr>"

section \<open>The runtime on the inputs used below\<close>

lemma iso_string_examples [simp]:
  "iso_string 0 = ''1970-01-01T00:00:00.000Z''"
  "iso_string 951782400123 = ''2000-02-29T00:00:00.123Z''"
  "iso_string 1000000000000 = ''2001-09-09T01:46:40.000Z''"
  "iso_string 1699000000000 = ''2023-11-03T08:26:40.000Z''"
  "iso_string 1700000000000 = ''2023-11-14T22:13:20.000Z''"
  "iso_string 1700000001000 = ''2023-11-14T22:13:21.000Z''"
  "iso_string 1700000002000 = ''2023-11-14T22:13:22.000Z''"
  by (simp_all add: iso_string_def civil_from_days_def pad_def decimal.simps
      cong: let_weak_cong)

lemma years_back_examples [simp]:
  "years_back 1700000000000 10 = 1384467200000"
  "years_back 951782400123 1 = 920246400123"
  by (simp_all add: years_back_def civil_from_days_def days_from_civil_def
      cong: let_weak_cong)

section \<open>The ledger: appending and verifying\<close>

lemma uuid_format_demo [simp]:
  "uuid_format uuid1" "uuid_format uuid2" "uuid_format uuid3" "uuid_format uuid4"
  by (simp_all add: uuid_format_def hex_digit_def uuid1_def uuid2_def uuid3_def uuid4_def)

lemma zod_uuid_demo [simp]: "zod_uuid demo_runtime = uuid_format"
  by (simp add: demo_runtime_def)

lemma log_entry_Inr:
  assumes "log_entry R uuid now entry s = (Inr l, s')"
  shows "logs s' = logs s @ [l]" and "previousHash l = Some (lastHash s)"
    and "lastHash s' = hash l" and "config s' = config s"
  using assms by (auto simp: log_entry_def Let_def split: if_splits)

lemma log_entry_Inl:
  "log_entry R uuid now entry s = (Inl e, s') \<Longrightarrow> s' = s \<and> e = Invalid_audit_log"
  by (auto simp: log_entry_def Let_def split: if_splits)

lemma appends_Cons:
  assumes "appends R (c # calls) s = Some s'"
  obtains l s1 where "log_entry R (fst c) (fst (snd c)) (snd (snd c)) s = (Inr l, s1)"
    and "appends R calls s1 = Some s'"
  using assms by (cases c) (auto split: prod.splits sum.splits)

lemma appends_previousHash:
  "appends R calls s = Some s' \<Longrightarrow> list_all (\<lambda>l. previousHash l \<noteq> None) (logs s)
     \<Longrightarrow> list_all (\<lambda>l. previousHash l \<noteq> None) (logs s')"
proof (induction calls arbitrary: s)
  case Nil
  then show ?case by simp
next
  case (Cons c calls)
  from Cons.prems(1) obtain l s1 where
    step: "log_entry R (fst c) (fst (snd c)) (snd (snd c)) s = (Inr l, s1)"
    and rest: "appends R calls s1 = Some s'"
    by (rule appends_Cons)
  have "list_all (\<lambda>l. previousHash l \<noteq> None) (logs s1)"
    using log_entry_Inr(1,2)[OF step] Cons.prems(2) by simp
  with Cons.IH[OF rest] show ?case by simp
qed

lemma appends_length:
  "appends R calls s = Some s' \<Longrightarrow> length (logs s') = length (logs s) + length calls"
proof (induction calls arbitrary: s)
  case Nil
  then show ?case by simp
next
  case (Cons c calls)
  from Cons.prems(1) obtain l s1 where
    step: "log_entry R (fst c) (fst (snd c)) (snd (snd c)) s = (Inr l, s1)"
    and rest: "appends R calls s1 = Some s'"
    by (rule appends_Cons)
  from log_entry_Inr(1)[OF step] Cons.IH[OF rest] show ?case by simp
qed

text \<open>
  The walk compares the first entry's \<open>previousHash\<close> with \<open>undefined\<close>. An entry whose
  \<open>previousHash\<close> is a string is therefore reported at index 0, whatever the digest is.
\<close>

lemma verifyIntegrity_linked_head:
  assumes "logs s \<noteq> []" and "previousHash (logs s ! 0) \<noteq> None"
  shows "verifyIntegrity R s = \<lparr>valid = False, brokenAt = Some 0\<rparr>"
  using assms by (simp add: verifyIntegrity_def Let_def)

text \<open>
  \<open>log\<close> stores the current tail hash, a string, as \<open>previousHash\<close>: the genesis hash of
  the constructor for the first entry. So on every runtime, after any non-empty run of
  successful \<open>log\<close> calls on a new ledger, the walk stops at index 0.
\<close>

lemma verifyIntegrity_after_appends:
  assumes "appends R calls (new_AuditLogService R cfg t0) = Some s" and "calls \<noteq> []"
  shows "verifyIntegrity R s = \<lparr>valid = False, brokenAt = Some 0\<rparr>"
proof -
  have "list_all (\<lambda>l. previousHash l \<noteq> None) (logs s)"
    using appends_previousHash[OF assms(1)] by (simp add: new_AuditLogService_def)
  moreover have "logs s \<noteq> []"
    using appends_length[OF assms(1)] assms(2) by (auto simp: new_AuditLogService_def)
  ultimately show ?thesis
    by (intro verifyIntegrity_linked_head) (auto simp: list_all_length)
qed

lemma ledger_of_one_Some: "\<exists>s. ledger_of_one = Some s"
  by (simp add: ledger_of_one_def log_entry_def Let_def AuditLogSchema_ok_def)

text \<open>
  Claim C1 (chain validity) says that after N successful appends on a new ledger
  \<open>verifyIntegrity()\<close> returns \<open>{valid: true}\<close>. The code returns
  \<open>{valid: false, brokenAt: 0}\<close> already for N = 1: one \<open>log\<close> call on a new ledger
  succeeds, and the walk rejects the entry it stored.
\<close>

theorem C1_one_append_fails_verification:
  "map_option (verifyIntegrity demo_runtime) ledger_of_one
     = Some \<lparr>valid = False, brokenAt = Some 0\<rparr>"
proof -
  obtain s where s: "ledger_of_one = Some s"
    using ledger_of_one_Some by blast
  then have "verifyIntegrity demo_runtime s = \<lparr>valid = False, brokenAt = Some 0\<rparr>"
    unfolding ledger_of_one_def fresh_ledger_def
    by (rule verifyIntegrity_after_appends) simp
  then show ?thesis
    by (simp add: s)
qed

section \<open>The ledger: querying\<close>

lemma js_slice_all: "js_slice xs 0 (int (length xs)) = xs"
  by (simp add: js_slice_def)

lemma getLogs_sorted_limit_offset:
  "getLogs_sorted (Some (opts\<lparr>o_limit := n, o_offset := k\<rparr>)) s = getLogs_sorted (Some opts) s"
  "getLogs_sorted (Some (opts\<lparr>o_limit := n\<rparr>)) s = getLogs_sorted (Some opts) s"
  by (simp_all add: getLogs_sorted_def truthy_string_def truthy_date_def)

text \<open>
  The six filters of \<open>getLogs\<close> together keep exactly the entries that match the
  options, in ledger order.
\<close>

lemma truthy_string_filter:
  "(case truthy_string (Some opt) field of None \<Rightarrow> xs | Some a \<Rightarrow> filter (\<lambda>l. g l = a) xs)
     = filter (\<lambda>l. filter_admits (field opt) (g l)) xs"
  by (auto simp: truthy_string_def filter_admits_def split: option.splits)

lemma truthy_date_filter:
  "(case truthy_date (Some opt) field of None \<Rightarrow> xs | Some d \<Rightarrow> filter (\<lambda>l. P d l) xs)
     = filter (\<lambda>l. case field opt of None \<Rightarrow> True | Some d \<Rightarrow> P d l) xs"
  by (auto simp: truthy_date_def split: option.splits)

lemma getLogs_sorted_matches:
  "getLogs_sorted (Some opts) s
     = sort_key (\<lambda>l. - timestamp l) (filter (entry_matches opts) (logs s))"
proof -
  have "getLogs_sorted (Some opts) s = sort_key (\<lambda>l. - timestamp l)
      (filter (\<lambda>l. case o_endDate opts of None \<Rightarrow> True | Some d \<Rightarrow> timestamp l \<le> d)
        (filter (\<lambda>l. case o_startDate opts of None \<Rightarrow> True | Some d \<Rightarrow> d \<le> timestamp l)
          (filter (\<lambda>l. filter_admits (o_targetType opts) (targetType_string (targetType l)))
            (filter (\<lambda>l. filter_admits (o_target opts) (target l))
              (filter (\<lambda>l. filter_admits (o_action opts) (action l))
                (filter (\<lambda>l. filter_admits (o_actor opts) (actor l)) (logs s)))))))"
    unfolding getLogs_sorted_def Let_def
    by (simp only: truthy_string_filter truthy_date_filter)
  also have "\<dots> = sort_key (\<lambda>l. - timestamp l) (filter (entry_matches opts) (logs s))"
    by (simp add: entry_matches_def conj_ac cong: filter_cong)
  finally show ?thesis .
qed

lemma entry_matches_limit_offset:
  "entry_matches (opts\<lparr>o_limit := n, o_offset := k\<rparr>) = entry_matches opts"
  by (simp add: entry_matches_def fun_eq_iff)

text \<open>
  Claim C10: in \<open>getLogs\<close> a limit of 0 is treated as an absent limit, not as a request
  for zero results. For every ledger and all options, the query with \<open>limit = 0\<close> returns
  what the query without a limit returns; and with no offset that is every entry of the
  ledger that matches the filters, each as often as the ledger holds it, newest first.
\<close>

theorem C10_limit_zero_is_no_limit:
  "getLogs (Some (opts\<lparr>o_limit := Some 0\<rparr>)) s = getLogs (Some (opts\<lparr>o_limit := None\<rparr>)) s
   \<and> getLogs (Some (opts\<lparr>o_limit := Some 0, o_offset := None\<rparr>)) s
       = sort_key (\<lambda>l. - timestamp l) (filter (entry_matches opts) (logs s))
   \<and> set (getLogs (Some (opts\<lparr>o_limit := Some 0, o_offset := None\<rparr>)) s)
       = {l \<in> set (logs s). entry_matches opts l}
   \<and> length (getLogs (Some (opts\<lparr>o_limit := Some 0, o_offset := None\<rparr>)) s)
       = length (filter (entry_matches opts) (logs s))"
proof -
  have same: "getLogs (Some (opts\<lparr>o_limit := Some 0\<rparr>)) s = getLogs (Some (opts\<lparr>o_limit := None\<rparr>)) s"
    by (simp add: getLogs_def Let_def truthy_number_def getLogs_sorted_limit_offset)
  have whole: "getLogs (Some (opts\<lparr>o_limit := Some 0, o_offset := None\<rparr>)) s
       = sort_key (\<lambda>l. - timestamp l) (filter (entry_matches opts) (logs s))"
    by (simp add: getLogs_def Let_def truthy_number_def getLogs_sorted_limit_offset
        js_slice_all getLogs_sorted_matches entry_matches_limit_offset)
  show ?thesis
    unfolding whole using same by auto
qed

text \<open>
  The three entries of \<open>alice\<close>, queried with a limit of 0: all three, newest first.
\<close>

lemma ledger_three_fields:
  "map action (logs ledger_three) = [''CREATE'', ''UPDATE'', ''DELETE'']"
  "map actor (logs ledger_three) = [''alice'', ''alice'', ''alice'']"
  "map timestamp (logs ledger_three) = [1700000000000, 1700000001000, 1700000002000]"
  by (simp_all add: ledger_three_def log_entry_def Let_def AuditLogSchema_ok_def
      fresh_ledger_def new_AuditLogService_def demo_entry_def)

theorem C10_limit_zero_is_no_limit_witness:
  "map action (getLogs (Some alice_no_limit) ledger_three) = [''DELETE'', ''UPDATE'', ''CREATE'']
   \<and> length (getLogs (Some alice_no_limit) ledger_three) = length (logs ledger_three)"
proof -
  obtain a b c where abc: "logs ledger_three = [a, b, c]"
    using ledger_three_fields(1) by (auto simp: map_eq_Cons_conv)
  have f: "action a = ''CREATE''" "action b = ''UPDATE''" "action c = ''DELETE''"
    "actor a = ''alice''" "actor b = ''alice''" "actor c = ''alice''"
    "timestamp a = 1700000000000" "timestamp b = 1700000001000" "timestamp c = 1700000002000"
    using ledger_three_fields by (simp_all add: abc)
  have m: "filter (entry_matches alice_no_limit) (logs ledger_three) = [a, b, c]"
    by (simp add: abc entry_matches_def filter_admits_def alice_no_limit_def f)
  have "alice_no_limit = alice_no_limit\<lparr>o_limit := Some 0, o_offset := None\<rparr>"
    by (simp add: alice_no_limit_def)
  then have "getLogs (Some alice_no_limit) ledger_three
      = sort_key (\<lambda>l. - timestamp l) (filter (entry_matches alice_no_limit) (logs ledger_three))"
    using C10_limit_zero_is_no_limit[of alice_no_limit ledger_three] by simp
  moreover have "length (logs ledger_three) = 3"
    by (simp add: abc)
  ultimately show ?thesis
    by (simp add: m f)
qed

section \<open>The rollback service: creating records\<close>

lemma log_entry_fst_Inr:
  assumes "zod_uuid R uuid"
  obtains l where "fst (log_entry R uuid now entry a) = Inr l"
  using assms by (simp add: log_entry_def Let_def AuditLogSchema_ok_def)

lemma initiateRollback_Inr:
  assumes "fst (initiateRollback R rd params s) = Inr r"
  shows "rb_id r = i_uuid rd" and "targetVersion r = p_targetVersion params"
    and "targetCommitId r = p_targetCommitId params" and "trigger r = p_trigger params"
    and "reason r = p_triggerReason params" and "status r = Pending"
    and "RollbackSchema_ok R r"
    and "rollbacks (snd (initiateRollback R rd params s)) = (rollbacks s)(i_uuid rd \<mapsto> r)"
    and "rollbackCountLastHour (snd (initiateRollback R rd params s)) = rollbackCountLastHour s + 1"
    and "lastRollbackTime (snd (initiateRollback R rd params s)) = i_now rd"
    and "rb_config (snd (initiateRollback R rd params s)) = rb_config s"
  using assms
  by (auto simp: initiateRollback_def Let_def split: if_splits sum.splits)

lemma initiateRollback_succeeds:
  assumes "zod_uuid R (i_uuid rd)" and "zod_uuid R (i_log_uuid rd)"
    and "p_targetCommitId params = None"
  shows "\<exists>r. fst (initiateRollback R rd params s) = Inr r"
proof -
  let ?s1 = "s\<lparr>rollbacks := (rollbacks s)(i_uuid rd \<mapsto> 
            \<lparr>rb_id = i_uuid rd, targetVersion = p_targetVersion params,
             targetCommitId = p_targetCommitId params, trigger = p_trigger params,
             reason = p_triggerReason params, initiatedBy = p_initiatedBy params,
             rb_timestamp = i_date rd, status = Pending, completedAt = None,
             error = None, affectedArtifacts = [],
             autoRollbackConfig = Some
               \<lparr>a_errorRateThreshold = errorRateThreshold (rb_config s),
                a_safetyViolationThreshold = safetyViolationThreshold (rb_config s),
                a_performanceThresholdMs = performanceThresholdMs (rb_config s),
                a_detectionWindowSeconds = detectionWindowSeconds (rb_config s),
                a_cooldownSeconds = cooldownSeconds (rb_config s)\<rparr>\<rparr>),
                       lastRollbackTime := i_now rd,
                       rollbackCountLastHour := rollbackCountLastHour s + 1\<rparr>"
  obtain l where l: "fst (log_entry R (i_log_uuid rd) (i_log_date rd)
                   \<lparr>e_action = ''ROLLBACK_INITIATED'', e_actor = p_initiatedBy params,
                    e_target = i_uuid rd, e_targetType = Rollback,
                    e_details = Some
                      [(''targetVersion'', JString (p_targetVersion params)),
                       (''trigger'', JString (rollbackTrigger_string (p_trigger params))),
                       (''reason'', JString (triggerReason_string (p_triggerReason params)))],
                    e_ipAddress = None, e_userAgent = None\<rparr>
                   (auditLog ?s1)) = Inr l"
    using assms(2) by (rule log_entry_fst_Inr)
  show ?thesis
    using assms(1,3) l
    by (simp add: initiateRollback_def Let_def RollbackSchema_ok_def)
qed

lemma checkAndTriggerRollback_closed:
  assumes "real_of_int (now - lastRollbackTime s) / 1000 < cooldownSeconds (rb_config s)
           \<or> maxRollbacksPerHour (rb_config s) \<le> real_of_int (rollbackCountLastHour s)"
  shows "checkAndTriggerRollback R now rd m s = (Inr None, s)"
  using assms by (auto simp: checkAndTriggerRollback_def Let_def)

lemma checkAndTriggerRollback_open:
  assumes "cooldownSeconds (rb_config s) \<le> real_of_int (now - lastRollbackTime s) / 1000"
    and "real_of_int (rollbackCountLastHour s) < maxRollbacksPerHour (rb_config s)"
  shows "checkAndTriggerRollback R now rd m s =
     (case triggerReason_of (rb_config s) m of
        None \<Rightarrow> (Inr None, s)
      | Some r \<Rightarrow>
         (let initiated = initiateRollback R rd
                      \<lparr>p_targetVersion = [], p_trigger = Automated,
                       p_triggerReason = r, p_initiatedBy = ''system'',
                       p_description = Some (''Automated trigger: '' @ triggerReason_string r),
                       p_targetCommitId = None\<rparr> s
                    in case fst initiated of
                         Inl e \<Rightarrow> (Inl e, snd initiated)
                       | Inr rollback \<Rightarrow> (Inr (Some rollback), snd initiated)))"
  using assms by (simp add: checkAndTriggerRollback_def Let_def)

lemma checkAndTriggerRollback_Some:
  assumes "fst (checkAndTriggerRollback R now rd m s) = Inr (Some r)"
  obtains rs where "triggerReason_of (rb_config s) m = Some rs"
    and "fst (initiateRollback R rd
                      \<lparr>p_targetVersion = [], p_trigger = Automated,
                       p_triggerReason = rs, p_initiatedBy = ''system'',
                       p_description = Some (''Automated trigger: '' @ triggerReason_string rs),
                       p_targetCommitId = None\<rparr> s) = Inr r"
    and "snd (checkAndTriggerRollback R now rd m s) = snd (initiateRollback R rd
                      \<lparr>p_targetVersion = [], p_trigger = Automated,
                       p_triggerReason = rs, p_initiatedBy = ''system'',
                       p_description = Some (''Automated trigger: '' @ triggerReason_string rs),
                       p_targetCommitId = None\<rparr> s)"
  using assms
  by (auto simp: checkAndTriggerRollback_def Let_def split: if_splits option.splits sum.splits)

lemma checkAndTriggerRollback_reason:
  assumes "cooldownSeconds (rb_config s) \<le> real_of_int (now - lastRollbackTime s) / 1000"
    and "real_of_int (rollbackCountLastHour s) < maxRollbacksPerHour (rb_config s)"
    and "zod_uuid R (i_uuid rd)" and "zod_uuid R (i_log_uuid rd)"
  shows "map_sum (\<lambda>e. e) (map_option reason) (fst (checkAndTriggerRollback R now rd m s))
           = Inr (triggerReason_of (rb_config s) m)"
    and "rollbackCountLastHour (snd (checkAndTriggerRollback R now rd m s))
           = rollbackCountLastHour s + (if triggerReason_of (rb_config s) m = None then 0 else 1)"
proof -
  show "map_sum (\<lambda>e. e) (map_option reason) (fst (checkAndTriggerRollback R now rd m s))
           = Inr (triggerReason_of (rb_config s) m)"
  proof (cases "triggerReason_of (rb_config s) m")
    case None
    then show ?thesis
      using assms(1,2) by (simp add: checkAndTriggerRollback_open)
  next
    case (Some rs)
    let ?params = "\<lparr>p_targetVersion = [], p_trigger = Automated,
                       p_triggerReason = rs, p_initiatedBy = ''system'',
                       p_description = Some (''Automated trigger: '' @ triggerReason_string rs),
                       p_targetCommitId = None\<rparr>"
    obtain r where r: "fst (initiateRollback R rd ?params s) = Inr r"
      using initiateRollback_succeeds[OF assms(3,4), of ?params s] by auto
    have "reason r = rs"
      using initiateRollback_Inr(5)[OF r] by simp
    then show ?thesis
      using assms(1,2) Some r by (simp add: checkAndTriggerRollback_open Let_def)
  qed
  show "rollbackCountLastHour (snd (checkAndTriggerRollback R now rd m s))
           = rollbackCountLastHour s + (if triggerReason_of (rb_config s) m = None then 0 else 1)"
  proof (cases "triggerReason_of (rb_config s) m")
    case None
    then show ?thesis
      using assms(1,2) by (simp add: checkAndTriggerRollback_open)
  next
    case (Some rs)
    let ?params = "\<lparr>p_targetVersion = [], p_trigger = Automated,
                       p_triggerReason = rs, p_initiatedBy = ''system'',
                       p_description = Some (''Automated trigger: '' @ triggerReason_string rs),
                       p_targetCommitId = None\<rparr>"
    obtain r where r: "fst (initiateRollback R rd ?params s) = Inr r"
      using initiateRollback_succeeds[OF assms(3,4), of ?params s] by auto
    show ?thesis
      using assms(1,2) Some r initiateRollback_Inr(9)[OF r]
      by (simp add: checkAndTriggerRollback_open Let_def)
  qed
qed

lemma checkAndTriggerRollback_Some_state:
  assumes "fst (checkAndTriggerRollback R now rd m s) = Inr (Some r)"
  shows "rb_id r = i_uuid rd" and "targetVersion r = []" and "targetCommitId r = None"
    and "trigger r = Automated" and "status r = Pending" and "RollbackSchema_ok R r"
    and "rollbacks (snd (checkAndTriggerRollback R now rd m s)) = (rollbacks s)(i_uuid rd \<mapsto> r)"
    and "rollbackCountLastHour (snd (checkAndTriggerRollback R now rd m s)) = rollbackCountLastHour s + 1"
    and "lastRollbackTime (snd (checkAndTriggerRollback R now rd m s)) = i_now rd"
    and "rb_config (snd (checkAndTriggerRollback R now rd m s)) = rb_config s"
proof -
  from assms obtain rs where
    i: "fst (initiateRollback R rd
                      \<lparr>p_targetVersion = [], p_trigger = Automated,
                       p_triggerReason = rs, p_initiatedBy = ''system'',
                       p_description = Some (''Automated trigger: '' @ triggerReason_string rs),
                       p_targetCommitId = None\<rparr> s) = Inr r"
    and s: "snd (checkAndTriggerRollback R now rd m s) = snd (initiateRollback R rd
                      \<lparr>p_targetVersion = [], p_trigger = Automated,
                       p_triggerReason = rs, p_initiatedBy = ''system'',
                       p_description = Some (''Automated trigger: '' @ triggerReason_string rs),
                       p_targetCommitId = None\<rparr> s)"
    by (rule checkAndTriggerRollback_Some)
  note facts = initiateRollback_Inr[OF i]
  show "rb_id r = i_uuid rd" using facts(1) .
  show "targetVersion r = []" using facts(2) by simp
  show "targetCommitId r = None" using facts(3) by simp
  show "trigger r = Automated" using facts(4) by simp
  show "status r = Pending" using facts(6) .
  show "RollbackSchema_ok R r" using facts(7) .
  show "rollbacks (snd (checkAndTriggerRollback R now rd m s)) = (rollbacks s)(i_uuid rd \<mapsto> r)"
    using facts(8) s by simp
  show "rollbackCountLastHour (snd (checkAndTriggerRollback R now rd m s)) = rollbackCountLastHour s + 1"
    using facts(9) s by simp
  show "lastRollbackTime (snd (checkAndTriggerRollback R now rd m s)) = i_now rd"
    using facts(10) s by simp
  show "rb_config (snd (checkAndTriggerRollback R now rd m s)) = rb_config s"
    using facts(11) s by simp
qed

lemma demo_service_simps [simp]:
  "rb_config demo_service = demo_rollbackConfig" "lastRollbackTime demo_service = 0"
  "rollbackCountLastHour demo_service = 0" "rollbacks demo_service = Map.empty"
  by (simp_all add: demo_service_def new_RollbackService_def)

lemma demo_rollbackConfig_simps [simp]:
  "cooldownSeconds demo_rollbackConfig = 300" "maxRollbacksPerHour demo_rollbackConfig = 2"
  "safetyViolationThreshold demo_rollbackConfig = 0"
  "errorRateThreshold demo_rollbackConfig = 0.05"
  "performanceThresholdMs demo_rollbackConfig = 5000"
  by (simp_all add: demo_rollbackConfig_def DEFAULT_ROLLBACK_CONFIG_def)

lemma reads_at_simps [simp]:
  "i_uuid (reads_at u lu t) = u" "i_log_uuid (reads_at u lu t) = lu" "i_now (reads_at u lu t) = t"
  "i_date (reads_at u lu t) = t" "i_log_date (reads_at u lu t) = t"
  by (simp_all add: reads_at_def)

lemma breach_reason [simp]: "triggerReason_of demo_rollbackConfig breach_metrics = Some Safety_violation"
  by (simp add: triggerReason_of_def breach_metrics_def)

lemma first_check:
  "map_sum (\<lambda>e. e) (map_option reason)
     (fst (checkAndTriggerRollback demo_runtime 1700000000000
            (reads_at uuid1 uuid2 1700000000000) breach_metrics demo_service))
   = Inr (Some Safety_violation)"
  using checkAndTriggerRollback_reason(1)[of demo_service 1700000000000 demo_runtime
      "reads_at uuid1 uuid2 1700000000000" breach_metrics]
  by simp

text \<open>
  Claim C6: \<open>checkAndTriggerRollback\<close> tests the trigger conditions in the fixed order
  safety violation, error rate, performance, and acts on the first match only. When both
  gates are open and the ids it reads are UUIDs, the call returns a record whose reason is
  the first condition that holds in that order (and \<open>null\<close> when none holds), and it
  counts at most one rollback. In particular, metrics that exceed the safety threshold
  and the error rate threshold at once give the reason \<open>safety_violation\<close>.
\<close>

theorem C6_priority_order:
  assumes "cooldownSeconds (rb_config s) \<le> real_of_int (now - lastRollbackTime s) / 1000"
    and "real_of_int (rollbackCountLastHour s) < maxRollbacksPerHour (rb_config s)"
    and "zod_uuid R (i_uuid rd)" and "zod_uuid R (i_log_uuid rd)"
  shows "map_sum (\<lambda>e. e) (map_option reason) (fst (checkAndTriggerRollback R now rd m s)) =
           Inr (if safetyViolationThreshold (rb_config s) < safetyViolations m
                then Some Safety_violation
                else if errorRateThreshold (rb_config s) < errorRate m
                then Some Error_rate_spike
                else if performanceThresholdMs (rb_config s) < averageResponseTimeMs m
                then Some Performance_degradation
                else None)
         \<and> rollbackCountLastHour (snd (checkAndTriggerRollback R now rd m s))
             \<le> rollbackCountLastHour s + 1"
  using checkAndTriggerRollback_reason[OF assms, of m]
  by (simp add: triggerReason_of_def)

text \<open>
  The specification's example: one safety violation (threshold 0) and an error rate of
  0.9 (threshold 0.05) on a new service.
\<close>

theorem C6_priority_order_witness:
  "cooldownSeconds (rb_config demo_service)
     \<le> real_of_int (1700000000000 - lastRollbackTime demo_service) / 1000
   \<and> real_of_int (rollbackCountLastHour demo_service) < maxRollbacksPerHour (rb_config demo_service)
   \<and> zod_uuid demo_runtime (i_uuid (reads_at uuid1 uuid2 1700000000000))
   \<and> zod_uuid demo_runtime (i_log_uuid (reads_at uuid1 uuid2 1700000000000))
   \<and> safetyViolationThreshold (rb_config demo_service) < safetyViolations breach_metrics
   \<and> errorRateThreshold (rb_config demo_service) < errorRate breach_metrics
   \<and> map_sum (\<lambda>e. e) (map_option reason)
        (fst (checkAndTriggerRollback demo_runtime 1700000000000
               (reads_at uuid1 uuid2 1700000000000) breach_metrics demo_service))
       = Inr (Some Safety_violation)"
  using C6_priority_order[of demo_service 1700000000000 demo_runtime
      "reads_at uuid1 uuid2 1700000000000" breach_metrics]
  by (simp add: breach_metrics_def)

lemma first_check_Some:
  "\<exists>r. fst (checkAndTriggerRollback demo_runtime 1700000000000
            (reads_at uuid1 uuid2 1700000000000) breach_metrics demo_service) = Inr (Some r)"
  using first_check by (auto simp: map_sum_def split: sum.splits)

text \<open>
  Claim C9: every record that the automated path (\<open>checkAndTriggerRollback\<close>) creates has
  the empty string as \<open>targetVersion\<close> and no \<open>targetCommitId\<close>; the record passes
  \<open>RollbackSchema\<close> and is stored under its id.
\<close>

theorem C9_automated_target_is_empty:
  assumes "fst (checkAndTriggerRollback R now rd m s) = Inr (Some r)"
  shows "targetVersion r = [] \<and> targetCommitId r = None \<and> RollbackSchema_ok R r
         \<and> rollbacks (snd (checkAndTriggerRollback R now rd m s)) (rb_id r) = Some r"
  using checkAndTriggerRollback_Some_state[OF assms] by simp

text \<open>The first automated rollback on a new service is such a record.\<close>

theorem C9_automated_target_is_empty_witness:
  "\<exists>r. fst (checkAndTriggerRollback demo_runtime 1700000000000
            (reads_at uuid1 uuid2 1700000000000) breach_metrics demo_service) = Inr (Some r)
       \<and> targetVersion r = [] \<and> targetCommitId r = None \<and> RollbackSchema_ok demo_runtime r
       \<and> rollbacks after_first (rb_id r) = Some r"
proof -
  obtain r where r: "fst (checkAndTriggerRollback demo_runtime 1700000000000
            (reads_at uuid1 uuid2 1700000000000) breach_metrics demo_service) = Inr (Some r)"
    using first_check_Some by blast
  from C9_automated_target_is_empty[OF r] r show ?thesis
    unfolding after_first_def by blast
qed

section \<open>The rollback service: the transitions\<close>

lemma executeRollback_rollbacks:
  assumes "rollbacks s rid = Some r" and "status r = Pending"
  shows "rollbacks (snd (executeRollback R lu ld rid s)) = (rollbacks s)(rid \<mapsto> r\<lparr>status := In_progress\<rparr>)"
  using assms by (simp add: executeRollback_def Let_def split: sum.splits)

lemma completeRollback_rollbacks:
  assumes "rollbacks s rid = Some r"
  shows "rollbacks (snd (completeRollback R d lu ld rid arts s))
           = (rollbacks s)(rid \<mapsto> r\<lparr>status := Completed, completedAt := Some d,
                                       affectedArtifacts := arts\<rparr>)"
  using assms by (simp add: completeRollback_def Let_def split: sum.splits)

lemma failRollback_rollbacks:
  assumes "rollbacks s rid = Some r"
  shows "rollbacks (snd (failRollback R d lu ld rid err s))
           = (rollbacks s)(rid \<mapsto> r\<lparr>status := Failed, completedAt := Some d,
                                       error := Some err\<rparr>)"
  using assms by (simp add: failRollback_def Let_def split: sum.splits)

lemma cancelRollback_rollbacks:
  assumes "rollbacks s rid = Some r" and "status r = Pending"
  shows "rollbacks (snd (cancelRollback R d lu ld rid by s))
           = (rollbacks s)(rid \<mapsto> r\<lparr>status := Failed,
                                       error := Some (''Cancelled by '' @ by),
                                       completedAt := Some d\<rparr>)"
  using assms by (simp add: cancelRollback_def Let_def split: sum.splits)

lemma after_first_record:
  "\<exists>r. rollbacks after_first uuid1 = Some r \<and> status r = Pending"
proof -
  obtain r where r: "fst (checkAndTriggerRollback demo_runtime 1700000000000
            (reads_at uuid1 uuid2 1700000000000) breach_metrics demo_service) = Inr (Some r)"
    using first_check_Some by blast
  from checkAndTriggerRollback_Some_state(5,7)[OF r] show ?thesis
    by (simp add: after_first_def)
qed

lemma first_in_progress_record:
  "\<exists>r. rollbacks first_in_progress uuid1 = Some r \<and> status r = In_progress"
proof -
  obtain r where "rollbacks after_first uuid1 = Some r" and "status r = Pending"
    using after_first_record by blast
  from executeRollback_rollbacks[OF this] show ?thesis
    by (simp add: first_in_progress_def)
qed

lemma first_completed_record:
  "\<exists>r. rollbacks first_completed uuid1 = Some r \<and> status r = Completed"
proof -
  obtain r where "rollbacks first_in_progress uuid1 = Some r"
    using first_in_progress_record by blast
  from completeRollback_rollbacks[OF this] show ?thesis
    by (simp add: first_completed_def)
qed

text \<open>
  Claim C7: \<open>executeRollback\<close> on a record that is not pending (in progress, completed or
  failed) throws \<open>'Rollback is not in pending status'\<close>, and \<open>cancelRollback\<close> on such a
  record throws \<open>'Only pending rollbacks can be cancelled'\<close>, the two invalid-state errors
  of the source; for an unknown id both throw the not-found error. In each case the
  service, and so the record, is unchanged.
\<close>

theorem C7_illegal_transitions_rejected:
  "(rollbacks s rid = Some r \<and> status r \<noteq> Pending \<longrightarrow>
      executeRollback R lu ld rid s = (Inl Not_in_pending_status, s)
      \<and> cancelRollback R d lu ld rid by s = (Inl Only_pending_cancellable, s))
   \<and> (rollbacks s rid = None \<longrightarrow>
      executeRollback R lu ld rid s = (Inl (Rollback_not_found rid), s)
      \<and> cancelRollback R d lu ld rid by s = (Inl (Rollback_not_found rid), s))"
  by (simp add: executeRollback_def cancelRollback_def)

text \<open>
  A record in progress for the first half, an id that was never stored for the second.
\<close>

theorem C7_illegal_transitions_rejected_witness:
  "(\<exists>r. rollbacks first_in_progress uuid1 = Some r \<and> status r \<noteq> Pending)
   \<and> executeRollback demo_runtime uuid3 1700000005000 uuid1 first_in_progress
       = (Inl Not_in_pending_status, first_in_progress)
   \<and> cancelRollback demo_runtime 1700000005000 uuid3 1700000005000 uuid1 ''bob'' first_in_progress
       = (Inl Only_pending_cancellable, first_in_progress)
   \<and> rollbacks demo_service uuid4 = None
   \<and> executeRollback demo_runtime uuid3 1700000005000 uuid4 demo_service
       = (Inl (Rollback_not_found uuid4), demo_service)
   \<and> cancelRollback demo_runtime 1700000005000 uuid3 1700000005000 uuid4 ''bob'' demo_service
       = (Inl (Rollback_not_found uuid4), demo_service)"
proof -
  obtain r where r: "rollbacks first_in_progress uuid1 = Some r" "status r = In_progress"
    using first_in_progress_record by blast
  show ?thesis
    using r
      C7_illegal_transitions_rejected[of first_in_progress uuid1 r demo_runtime uuid3
        1700000005000 1700000005000 "''bob''"]
      C7_illegal_transitions_rejected[of demo_service uuid4 r demo_runtime uuid3
        1700000005000 1700000005000 "''bob''"]
    by simp
qed


section \<open>The rollback service: the rate gate\<close>

text \<open>
  Once the counter has reached \<open>maxRollbacksPerHour\<close>, \<open>checkAndTriggerRollback\<close> returns
  \<open>null\<close> whatever the time is (lemma \<open>checkAndTriggerRollback_closed\<close>), and no
  operation of the service lowers the counter.
\<close>

lemma rollbackCountLastHour_never_decreases:
  "rollbackCountLastHour s \<le> rollbackCountLastHour (snd (initiateRollback R rd params s))"
  "rollbackCountLastHour s \<le> rollbackCountLastHour (snd (checkAndTriggerRollback R now rd m s))"
  "rollbackCountLastHour (snd (executeRollback R lu ld rid s)) = rollbackCountLastHour s"
  "rollbackCountLastHour (snd (completeRollback R d lu ld rid arts s)) = rollbackCountLastHour s"
  "rollbackCountLastHour (snd (failRollback R d lu ld rid err s)) = rollbackCountLastHour s"
  "rollbackCountLastHour (snd (cancelRollback R d lu ld rid by s)) = rollbackCountLastHour s"
  by (auto simp: initiateRollback_def checkAndTriggerRollback_def executeRollback_def
      completeRollback_def failRollback_def cancelRollback_def Let_def
      split: option.splits sum.splits)

lemma after_first_simps [simp]:
  "rb_config after_first = demo_rollbackConfig" "lastRollbackTime after_first = 1700000000000"
  "rollbackCountLastHour after_first = 1"
proof -
  obtain r where r: "fst (checkAndTriggerRollback demo_runtime 1700000000000
            (reads_at uuid1 uuid2 1700000000000) breach_metrics demo_service) = Inr (Some r)"
    using first_check_Some by blast
  note facts = checkAndTriggerRollback_Some_state[OF r]
  show "rb_config after_first = demo_rollbackConfig"
    using facts(10) by (simp add: after_first_def)
  show "lastRollbackTime after_first = 1700000000000"
    using facts(9) by (simp add: after_first_def)
  show "rollbackCountLastHour after_first = 1"
    using facts(8) by (simp add: after_first_def)
qed

lemma second_check:
  "map_sum (\<lambda>e. e) (map_option reason)
     (fst (checkAndTriggerRollback demo_runtime 1700000400000
            (reads_at uuid3 uuid4 1700000400000) breach_metrics after_first))
   = Inr (Some Safety_violation)"
  using checkAndTriggerRollback_reason(1)[of after_first 1700000400000 demo_runtime
      "reads_at uuid3 uuid4 1700000400000" breach_metrics]
  by simp

lemma after_second_simps [simp]:
  "rb_config after_second = demo_rollbackConfig" "lastRollbackTime after_second = 1700000400000"
  "rollbackCountLastHour after_second = 2"
proof -
  obtain r where r: "fst (checkAndTriggerRollback demo_runtime 1700000400000
            (reads_at uuid3 uuid4 1700000400000) breach_metrics after_first) = Inr (Some r)"
    using second_check by (auto simp: map_sum_def split: sum.splits)
  note facts = checkAndTriggerRollback_Some_state[OF r]
  show "rb_config after_second = demo_rollbackConfig"
    using facts(10) by (simp add: after_second_def)
  show "lastRollbackTime after_second = 1700000400000"
    using facts(9) by (simp add: after_second_def)
  show "rollbackCountLastHour after_second = 2"
    using facts(8) by (simp add: after_second_def)
qed

text \<open>
  Claim C4 says that the hourly limit is a sliding window: with at most two rollbacks per
  hour a third qualifying sample within the hour is suppressed, and a qualifying sample
  after the window has passed the first two creates a record again. The code suppresses
  the third sample, 800 seconds after the first; it also suppresses the sample three hours
  after the first, when both rollbacks are older than an hour and the cooldown has long
  passed.
\<close>

theorem C4_rate_gate_never_reopens:
  "map_sum (\<lambda>e. e) (map_option reason)
     (fst (checkAndTriggerRollback demo_runtime 1700000000000
            (reads_at uuid1 uuid2 1700000000000) breach_metrics demo_service))
     = Inr (Some Safety_violation)
   \<and> map_sum (\<lambda>e. e) (map_option reason)
     (fst (checkAndTriggerRollback demo_runtime 1700000400000
            (reads_at uuid3 uuid4 1700000400000) breach_metrics after_first))
     = Inr (Some Safety_violation)
   \<and> checkAndTriggerRollback demo_runtime 1700000800000
        (reads_at uuid2 uuid1 1700000800000) breach_metrics after_second
     = (Inr None, after_second)
   \<and> checkAndTriggerRollback demo_runtime 1700010800000
        (reads_at uuid2 uuid1 1700010800000) breach_metrics after_second
     = (Inr None, after_second)"
  using first_check second_check
    checkAndTriggerRollback_closed[of 1700000800000 after_second demo_runtime
      "reads_at uuid2 uuid1 1700000800000" breach_metrics]
    checkAndTriggerRollback_closed[of 1700010800000 after_second demo_runtime
      "reads_at uuid2 uuid1 1700010800000" breach_metrics]
  by simp

text \<open>No transition gives a record the status \<open>pending\<close>.\<close>

lemma transitions_never_enter_pending:
  assumes "status r' = Pending"
  shows "rollbacks (snd (executeRollback R lu ld rid s)) k = Some r' \<Longrightarrow> rollbacks s k = Some r'"
    and "rollbacks (snd (completeRollback R d lu ld rid arts s)) k = Some r' \<Longrightarrow> rollbacks s k = Some r'"
    and "rollbacks (snd (failRollback R d lu ld rid err s)) k = Some r' \<Longrightarrow> rollbacks s k = Some r'"
    and "rollbacks (snd (cancelRollback R d lu ld rid by s)) k = Some r' \<Longrightarrow> rollbacks s k = Some r'"
  using assms
  by (auto simp: executeRollback_def completeRollback_def failRollback_def cancelRollback_def
      Let_def split: option.splits sum.splits if_splits)

text \<open>
  Claim C5 says that no operation changes the status of a completed or failed record.
  In the code \<open>failRollback\<close> turns a completed record into a failed one and
  \<open>completeRollback\<close> turns a failed record into a completed one: neither tests the
  status, as \<open>executeRollback\<close> and \<open>cancelRollback\<close> do.
\<close>

theorem C5_terminal_status_overwritten:
  "map_option status (rollbacks first_completed uuid1) = Some Completed
   \<and> map_option status
        (rollbacks (snd (failRollback demo_runtime 1700000009000 uuid3 1700000009000 uuid1
                           ''too late'' first_completed)) uuid1)
       = Some Failed
   \<and> map_option status
        (rollbacks (snd (completeRollback demo_runtime 1700000010000 uuid2 1700000010000 uuid1 []
                     (snd (failRollback demo_runtime 1700000009000 uuid3 1700000009000 uuid1
                           ''too late'' first_completed)))) uuid1)
       = Some Completed"
proof -
  obtain r where r: "rollbacks first_completed uuid1 = Some r" "status r = Completed"
    using first_completed_record by blast
  let ?failed = "snd (failRollback demo_runtime 1700000009000 uuid3 1700000009000 uuid1
                           ''too late'' first_completed)"
  have f: "rollbacks ?failed uuid1 = Some (r\<lparr>status := Failed, completedAt := Some 1700000009000,
                                       error := Some ''too late''\<rparr>)"
    using failRollback_rollbacks[OF r(1)] by simp
  show ?thesis
    using r f completeRollback_rollbacks[OF f] by simp
qed

section \<open>The ledger: tampering\<close>


declare verifyIntegrity_from.simps [simp del]









text \<open>The claim as stated fails on a ledger built by two \<open>log\<close> calls.\<close>

lemma ledger_of_two_eq: "ledger_of_two = Some ledger_two"
  by (simp add: ledger_of_two_def ledger_two_def log_entry_def Let_def AuditLogSchema_ok_def)

lemma ledger_two_logs:
  "length (logs ledger_two) = 2"
  "previousHash (logs ledger_two ! 0) = Some (lastHash fresh_ledger)"
  by (simp_all add: ledger_two_def log_entry_def Let_def AuditLogSchema_ok_def
      fresh_ledger_def new_AuditLogService_def)







section \<open>The ledger: pruning\<close>

text \<open>
  \<open>archiveOldLogs\<close> changes the entry list and nothing else: the service has no field
  for archived entries or for a boundary hash, and the result holds the two counts only.
\<close>

lemma archiveOldLogs_state:
  "snd (archiveOldLogs R now s) =
     s\<lparr>logs := filter (\<lambda>l. setFullYear_back R now (retentionYears (config s)) \<le> timestamp l) (logs s)\<rparr>"
  by (simp add: archiveOldLogs_def Let_def)

lemma archiveOldLogs_counts:
  "archived (fst (archiveOldLogs R now s)) + retained (fst (archiveOldLogs R now s)) = length (logs s)"
proof -
  let ?c = "setFullYear_back R now (retentionYears (config s))"
  have "filter (\<lambda>l. ?c \<le> timestamp l) (logs s) = filter (\<lambda>l. \<not> timestamp l < ?c) (logs s)"
    by (simp add: not_less)
  then show ?thesis
    using sum_length_filter_compl[of "\<lambda>l. timestamp l < ?c" "logs s"]
    by (simp add: archiveOldLogs_def Let_def)
qed

lemma archiveOldLogs_retained:
  "retained (fst (archiveOldLogs R now s)) = length (logs (snd (archiveOldLogs R now s)))"
  by (simp add: archiveOldLogs_def Let_def)

lemma verifyIntegrity_all_linked:
  assumes "list_all (\<lambda>l. previousHash l \<noteq> None) (logs s)" and "logs s \<noteq> []"
  shows "verifyIntegrity R s = \<lparr>valid = False, brokenAt = Some 0\<rparr>"
  using assms by (intro verifyIntegrity_linked_head) (auto simp: list_all_length)

text \<open>
  Claim C3, as amended. \<open>archiveOldLogs()\<close> keeps exactly the entries that are not older
  than the cutoff, in order, and drops the others: it neither stores them nor records the
  hash at the boundary, and it returns the two counts. For a ledger built by \<open>log\<close>
  calls, when the chain's first entry is among the pruned ones and some entry is kept,
  \<open>verifyIntegrity()\<close> on the kept ledger returns \<open>{valid: false, brokenAt: 0}\<close>.
\<close>

theorem C3_pruning_discards_and_breaks_head:
  assumes "appends R calls (new_AuditLogService R cfg t0) = Some s"
    and "logs s \<noteq> []"
    and "timestamp (logs s ! 0) < setFullYear_back R now (retentionYears (config s))"
    and "0 < retained (fst (archiveOldLogs R now s))"
  shows "snd (archiveOldLogs R now s) =
           s\<lparr>logs := filter (\<lambda>l. setFullYear_back R now (retentionYears (config s)) \<le> timestamp l)
                       (logs s)\<rparr>
         \<and> 0 < archived (fst (archiveOldLogs R now s))
         \<and> archived (fst (archiveOldLogs R now s)) + retained (fst (archiveOldLogs R now s))
             = length (logs s)
         \<and> verifyIntegrity R (snd (archiveOldLogs R now s)) = \<lparr>valid = False, brokenAt = Some 0\<rparr>"
proof (intro conjI)
  show "snd (archiveOldLogs R now s) =
           s\<lparr>logs := filter (\<lambda>l. setFullYear_back R now (retentionYears (config s)) \<le> timestamp l)
                       (logs s)\<rparr>"
    by (rule archiveOldLogs_state)
  have "logs s ! 0 \<in> set (logs s)"
    using assms(2) by simp
  with assms(3) have "filter (\<lambda>l. timestamp l < setFullYear_back R now (retentionYears (config s))) (logs s) \<noteq> []"
    by (auto simp: filter_empty_conv)
  then show "0 < archived (fst (archiveOldLogs R now s))"
    by (simp add: archiveOldLogs_def Let_def)
  show "archived (fst (archiveOldLogs R now s)) + retained (fst (archiveOldLogs R now s))
             = length (logs s)"
    by (rule archiveOldLogs_counts)
  have linked: "list_all (\<lambda>l. previousHash l \<noteq> None) (logs s)"
    using appends_previousHash[OF assms(1)] by (simp add: new_AuditLogService_def)
  have "list_all (\<lambda>l. previousHash l \<noteq> None) (logs (snd (archiveOldLogs R now s)))"
    using linked by (auto simp: archiveOldLogs_state list_all_iff)
  moreover have "logs (snd (archiveOldLogs R now s)) \<noteq> []"
    using assms(4) by (simp add: archiveOldLogs_retained)
  ultimately show "verifyIntegrity R (snd (archiveOldLogs R now s))
                     = \<lparr>valid = False, brokenAt = Some 0\<rparr>"
    by (rule verifyIntegrity_all_linked)
qed

text \<open>
  The ledger of two entries, logged in 2001 and in 2023, pruned in 2023 with a retention
  of ten years.
\<close>

lemma ledger_two_archive:
  "archiveOldLogs demo_runtime 1700000000000 ledger_two =
     (\<lparr>archived = 1, retained = 1\<rparr>, ledger_two\<lparr>logs := [logs ledger_two ! 1]\<rparr>)"
  by (simp add: archiveOldLogs_def Let_def ledger_two_def log_entry_def AuditLogSchema_ok_def
      fresh_ledger_def new_AuditLogService_def demo_config_def demo_runtime_def)

text \<open>
  Counterexample to claim C3 as stated (the retained ledger remains verifiable): pruning
  drops the first entry, the service afterwards is the old one with the one remaining
  entry, and the walk rejects that entry.
\<close>

theorem C3_counterexample:
  "ledger_of_two = Some ledger_two
   \<and> archiveOldLogs demo_runtime 1700000000000 ledger_two =
       (\<lparr>archived = 1, retained = 1\<rparr>, ledger_two\<lparr>logs := [logs ledger_two ! 1]\<rparr>)
   \<and> verifyIntegrity demo_runtime (snd (archiveOldLogs demo_runtime 1700000000000 ledger_two))
       = \<lparr>valid = False, brokenAt = Some 0\<rparr>"
proof -
  have "previousHash (logs ledger_two ! 1) \<noteq> None"
    by (simp add: ledger_two_def log_entry_def Let_def AuditLogSchema_ok_def
      fresh_ledger_def new_AuditLogService_def)
  then have "verifyIntegrity demo_runtime (ledger_two\<lparr>logs := [logs ledger_two ! 1]\<rparr>)
       = \<lparr>valid = False, brokenAt = Some 0\<rparr>"
    by (intro verifyIntegrity_linked_head) simp_all
  then show ?thesis
    using ledger_of_two_eq ledger_two_archive by simp
qed

text \<open>The same run satisfies the hypotheses of the amended claim.\<close>

theorem C3_pruning_discards_and_breaks_head_witness:
  "appends demo_runtime
       [(uuid1, 1000000000000, demo_entry ''CREATE''),
        (uuid2, 1699000000000, demo_entry ''UPDATE'')]
       (new_AuditLogService demo_runtime demo_config 1690000000000) = Some ledger_two
   \<and> logs ledger_two \<noteq> []
   \<and> timestamp (logs ledger_two ! 0)
       < setFullYear_back demo_runtime 1700000000000 (retentionYears (config ledger_two))
   \<and> 0 < retained (fst (archiveOldLogs demo_runtime 1700000000000 ledger_two))
   \<and> 0 < archived (fst (archiveOldLogs demo_runtime 1700000000000 ledger_two))
   \<and> verifyIntegrity demo_runtime (snd (archiveOldLogs demo_runtime 1700000000000 ledger_two))
       = \<lparr>valid = False, brokenAt = Some 0\<rparr>"
proof -
  have built: "appends demo_runtime
       [(uuid1, 1000000000000, demo_entry ''CREATE''),
        (uuid2, 1699000000000, demo_entry ''UPDATE'')]
       (new_AuditLogService demo_runtime demo_config 1690000000000) = Some ledger_two"
    using ledger_of_two_eq by (simp add: ledger_of_two_def fresh_ledger_def)
  have ne: "logs ledger_two \<noteq> []"
    using ledger_two_logs(1) by auto
  have old: "timestamp (logs ledger_two ! 0)
       < setFullYear_back demo_runtime 1700000000000 (retentionYears (config ledger_two))"
    by (simp add: ledger_two_def log_entry_def Let_def AuditLogSchema_ok_def
      fresh_ledger_def new_AuditLogService_def demo_config_def demo_runtime_def)
  have kept: "0 < retained (fst (archiveOldLogs demo_runtime 1700000000000 ledger_two))"
    by (simp add: ledger_two_archive)
  note pruned = C3_pruning_discards_and_breaks_head[OF built ne old kept]
  from pruned have gone: "0 < archived (fst (archiveOldLogs demo_runtime 1700000000000 ledger_two))"
    by (elim conjE)
  from pruned have broken:
    "verifyIntegrity demo_runtime (snd (archiveOldLogs demo_runtime 1700000000000 ledger_two))
       = \<lparr>valid = False, brokenAt = Some 0\<rparr>"
    by (elim conjE)
  from built ne old kept gone broken show ?thesis
    by (intro conjI)
qed

section \<open>The ledger: CSV export\<close>

text \<open>Splitting a join at its separator gives the pieces back when no piece contains it.\<close>

lemma split_on_no_sep: "c \<notin> set x \<Longrightarrow> split_on c x = [x]"
  by (induction x) auto

lemma split_on_append: "c \<notin> set x \<Longrightarrow> split_on c (x @ c # rest) = x # split_on c rest"
  by (induction x) auto

lemma split_on_join:
  "xs \<noteq> [] \<Longrightarrow> list_all (\<lambda>x. c \<notin> set x) xs \<Longrightarrow> split_on c (join [c] xs) = xs"
proof (induction "[c]" xs rule: join.induct)
  case 1
  then show ?case by simp
next
  case (2 x)
  then show ?case by (simp add: split_on_no_sep)
next
  case (3 x y ys)
  then show ?case by (simp add: split_on_append)
qed

lemma set_join: "set (join sep xs) \<subseteq> set sep \<union> \<Union> (set ` set xs)"
  by (induction sep xs rule: join.induct) auto

lemma join_no_char:
  "c \<notin> set sep \<Longrightarrow> list_all (\<lambda>x. c \<notin> set x) xs \<Longrightarrow> c \<notin> set (join sep xs)"
  using set_join[of sep xs] by (auto simp: list_all_iff)

text \<open>
  Claim C8, as amended. The CSV export is the fixed header line
  \<open>id,action,actor,target,targetType,timestamp,hash,previousHash\<close> followed by one line per
  entry in ledger order, each the eight fields of the entry joined by commas as they are,
  with no quoting or escaping. So for a ledger of N entries whose fields contain no line
  break the output has exactly N + 1 lines.
\<close>

theorem C8_csv_plain_join:
  assumes "list_all (\<lambda>l. list_all (\<lambda>f. CHR 0x0A \<notin> set f) (csv_row R l)) (logs s)"
  shows "split_on (CHR 0x0A) (exportForCompliance R Csv s) =
           ''id,action,actor,target,targetType,timestamp,hash,previousHash''
           # map (\<lambda>l. join '','' (csv_row R l)) (logs s)
         \<and> length (split_on (CHR 0x0A) (exportForCompliance R Csv s)) = length (logs s) + 1"
proof -
  let ?lines = "join '','' csv_headers # map (\<lambda>l. join '','' (csv_row R l)) (logs s)"
  have header: "join '','' csv_headers = ''id,action,actor,target,targetType,timestamp,hash,previousHash''"
    by (simp add: csv_headers_def)
  have "list_all (\<lambda>x. CHR 0x0A \<notin> set x) (map (\<lambda>l. join '','' (csv_row R l)) (logs s))"
  proof -
    have "CHR 0x0A \<notin> set (join '','' (csv_row R l))" if "l \<in> set (logs s)" for l
    proof (rule join_no_char)
      show "CHR 0x0A \<notin> set '',''" by simp
      show "list_all (\<lambda>x. CHR 0x0A \<notin> set x) (csv_row R l)"
        using assms that by (simp add: list_all_iff)
    qed
    then show ?thesis by (simp add: list_all_iff)
  qed
  then have "list_all (\<lambda>x. CHR 0x0A \<notin> set x) ?lines"
    by (simp add: header)
  then have "split_on (CHR 0x0A) (join [CHR 0x0A] ?lines) = ?lines"
    by (intro split_on_join) simp_all
  moreover have "exportForCompliance R Csv s = join [CHR 0x0A] ?lines"
    by (simp add: exportForCompliance_def Let_def comp_def)
  ultimately have "split_on (CHR 0x0A) (exportForCompliance R Csv s) = ?lines"
    by simp
  then show ?thesis
    by (simp add: header)
qed

text \<open>
  Counterexample to claim C8 as stated (every field is escaped as in RFC 4180): for an
  entry whose action is \<open>MERGE,REBASE\<close> the code writes the action unquoted, where the
  escaped export encloses it in double quotes; the row then has nine cells under eight
  column names.
\<close>

theorem C8_counterexample:
  "exportForCompliance demo_runtime Csv comma_ledger
     = ''id,action,actor,target,targetType,timestamp,hash,previousHash'' @ [CHR 0x0A]
       @ ''11111111-1111-4111-8111-111111111111,MERGE,REBASE,alice,doc-1,branch,2023-11-14T22:13:20.000Z,9f2c,03ab''
   \<and> exportCsv_rfc4180 demo_runtime comma_ledger
     = ''id,action,actor,target,targetType,timestamp,hash,previousHash'' @ [CHR 0x0A]
       @ ''11111111-1111-4111-8111-111111111111,'' @ [CHR 0x22] @ ''MERGE,REBASE'' @ [CHR 0x22]
       @ '',alice,doc-1,branch,2023-11-14T22:13:20.000Z,9f2c,03ab''
   \<and> exportForCompliance demo_runtime Csv comma_ledger \<noteq> exportCsv_rfc4180 demo_runtime comma_ledger
   \<and> length (split_on CHR '',''
        (split_on (CHR 0x0A) (exportForCompliance demo_runtime Csv comma_ledger) ! 1)) = 9"
  by (simp add: exportForCompliance_def exportCsv_rfc4180_def comma_ledger_def csv_headers_def
      csv_row_def rfc4180_field_def demo_runtime_def uuid1_def number_string_def decimal.simps)

text \<open>
  The specification's scenario: three entries with no line break in any field, four lines.
\<close>

lemma ledger_three_plain:
  "list_all (\<lambda>l. list_all (\<lambda>f. CHR 0x0A \<notin> set f) (csv_row demo_runtime l)) (logs ledger_three)"
  "length (logs ledger_three) = 3"
  by (simp_all add: ledger_three_def log_entry_def Let_def AuditLogSchema_ok_def csv_row_def
      fresh_ledger_def new_AuditLogService_def createInitialHash_def createAuditHash_def
      sha256_def demo_entry_def demo_runtime_def uuid1_def uuid2_def uuid3_def
      uuid_format_def hex_digit_def number_string_def decimal.simps)

theorem C8_csv_plain_join_witness:
  "list_all (\<lambda>l. list_all (\<lambda>f. CHR 0x0A \<notin> set f) (csv_row demo_runtime l)) (logs ledger_three)
   \<and> length (split_on (CHR 0x0A) (exportForCompliance demo_runtime Csv ledger_three)) = 4"
  using C8_csv_plain_join[OF ledger_three_plain(1)] ledger_three_plain by simp

end
